theory Spec2Isabelle
  imports Main "HOL-Library.Word"
begin

section \<open>The syntax tree handed to the translator\<close>

text \<open>
  The translator of \<^verbatim>\<open>src/parsing/parser.ts\<close> reads a Babel syntax tree. A comment is
  a JavaScript object, compared by reference (\<^verbatim>\<open>Set<babel.Comment>\<close>,
  \<^verbatim>\<open>Array.prototype.includes\<close>); the field \<open>c_ref\<close> stands for the reference, so two
  listings of the same comment object are equal records and two distinct objects differ.
  Source lines are JavaScript numbers, modelled as \<open>int\<close>; offsets into the file text as
  \<open>nat\<close>.
\<close>

datatype comment_kind = CommentBlock | CommentLine

record comment =
  c_ref :: nat
  c_type :: comment_kind
  c_value :: string
  c_loc_start_line :: int
  c_loc_end_line :: int

text \<open>The fields every Babel node has: its span and its three comment collections
  (each may be absent).\<close>

record node_base =
  n_start :: nat
  n_end :: nat
  loc_start_line :: int
  loc_end_line :: int
  leadingComments :: "comment list option"
  trailingComments :: "comment list option"
  innerComments :: "comment list option"

datatype keyword_kind =
  TSStringKeyword | TSNumberKeyword | TSBooleanKeyword | TSAnyKeyword
  | TSUnknownKeyword | TSObjectKeyword | ThisExpression

text \<open>A child that is \<^verbatim>\<open>null\<close>, a \<^verbatim>\<open>Noop\<close> placeholder node, or present.\<close>

datatype 'a or_noop = Null | Noop | Present 'a

text \<open>
  One constructor per node kind that \<^verbatim>\<open>parseObj\<close> dispatches on, and \<open>OtherNode\<close> for every
  kind that has no entry there; it carries the kind's name and whether the object has a non-null
  \<^verbatim>\<open>body\<close> property (all that \<^verbatim>\<open>hasBody\<close> reads of it).
  Of a type parameter declaration only \<^verbatim>\<open>params\<close> is read, of a return type only
  \<^verbatim>\<open>typeAnnotation\<close>.
\<close>

datatype node =
    Program node_base "node list"
  | BlockStatement node_base "node list"
  | Identifier node_base string
  | ExportNamedDeclaration node_base "node option"
  | FunctionDeclaration node_base bool bool "node option" "node list or_noop"
      "node list" "node or_noop" node
  | TSTypeAliasDeclaration node_base node "node list option" node
  | ImportDeclaration node_base "node list" node
  | ExpressionStatement node_base node
  | IfStatement node_base node node "node option"
  | CallExpression node_base node "node list"
  | ImportDefaultSpecifier node_base node
  | ImportNamespaceSpecifier node_base node
  | ImportSpecifier node_base node node
  | StringLiteral node_base string
  | BooleanLiteral node_base bool
  | KeywordNode node_base keyword_kind
  | TSTypeParameter node_base string "node option" "node option"
  | TSUnionType node_base "node list"
  | OtherNode node_base string bool

fun base :: "node \<Rightarrow> node_base" where
  "base (Program b _) = b"
| "base (BlockStatement b _) = b"
| "base (Identifier b _) = b"
| "base (ExportNamedDeclaration b _) = b"
| "base (FunctionDeclaration b _ _ _ _ _ _ _) = b"
| "base (TSTypeAliasDeclaration b _ _ _) = b"
| "base (ImportDeclaration b _ _) = b"
| "base (ExpressionStatement b _) = b"
| "base (IfStatement b _ _ _) = b"
| "base (CallExpression b _ _) = b"
| "base (ImportDefaultSpecifier b _) = b"
| "base (ImportNamespaceSpecifier b _) = b"
| "base (ImportSpecifier b _ _) = b"
| "base (StringLiteral b _) = b"
| "base (BooleanLiteral b _) = b"
| "base (KeywordNode b _) = b"
| "base (TSTypeParameter b _ _ _) = b"
| "base (TSUnionType b _) = b"
| "base (OtherNode b _ _) = b"

fun isBlockStatement :: "node \<Rightarrow> bool" where
  "isBlockStatement (BlockStatement _ _) = True"
| "isBlockStatement _ = False"

fun isImportDefaultSpecifier :: "node \<Rightarrow> bool" where
  "isImportDefaultSpecifier (ImportDefaultSpecifier _ _) = True"
| "isImportDefaultSpecifier _ = False"

fun isImportNamespaceSpecifier :: "node \<Rightarrow> bool" where
  "isImportNamespaceSpecifier (ImportNamespaceSpecifier _ _) = True"
| "isImportNamespaceSpecifier _ = False"

fun isImportSpecifier :: "node \<Rightarrow> bool" where
  "isImportSpecifier (ImportSpecifier _ _ _) = True"
| "isImportSpecifier _ = False"

text \<open>\<^verbatim>\<open>block.body\<close> of a block statement or program.\<close>

fun body_of :: "node \<Rightarrow> node list" where
  "body_of (Program _ ss) = ss"
| "body_of (BlockStatement _ ss) = ss"
| "body_of _ = []"

text \<open>\<^verbatim>\<open>hasBody\<close>: the node object has a non-null \<^verbatim>\<open>body\<close> property. Of the
  kinds above, programs, block statements and function declarations have one.\<close>

fun hasBody :: "node \<Rightarrow> bool" where
  "hasBody (Program _ _) = True"
| "hasBody (BlockStatement _ _) = True"
| "hasBody (FunctionDeclaration _ _ _ _ _ _ _ _) = True"
| "hasBody (OtherNode _ _ hb) = hb"
| "hasBody _ = False"

section \<open>The print document\<close>

text \<open>
  The items a producer yields (\<^verbatim>\<open>PrintItem\<close>): a string, a behaviour signal, a group,
  a condition, an info (a position marker) or the verbatim text of an unknown node. The types
  are declared in \<^verbatim>\<open>../types\<close>, which is not part of the sources read here; they are
  taken from the way \<^verbatim>\<open>parser.ts\<close> builds and reads them. An info is an object compared by
  reference: \<open>info_id\<close> is that reference, handed out by \<open>createInfo\<close>.
\<close>

datatype behaviour =
  ExpectNewLine | SpaceOrNewLine | StartIndent | FinishIndent
  | StartHangingIndent | FinishHangingIndent

record info =
  info_id :: nat
  info_name :: string

record writer_info =
  lineNumber :: nat
  columnNumber :: nat
  lineStartIndentLevel :: nat

record resolve_condition_context =
  getResolvedInfo :: "info \<Rightarrow> writer_info option"
  writerInfo :: writer_info

text \<open>
  The \<^verbatim>\<open>condition\<close> field of a condition is either a function of the resolution context
  that answers true, false or \<^verbatim>\<open>undefined\<close>, or another condition object.
\<close>

datatype print_item =
    Str string
  | Beh behaviour
  | Group "print_item list"
  | Cond condition
  | InfoItem info
  | Unknown string
and condition =
    Condition (cond_name: string) (cond_condition: resolve_condition)
      (cond_true: "print_item list option") (cond_false: "print_item list option")
and resolve_condition =
    ResolveFn "resolve_condition_context \<Rightarrow> bool option"
  | ConditionRef condition

section \<open>Configuration, context and state\<close>

datatype new_line_kind = Auto | CRLF | LF

record resolved_configuration =
  opt_newLineKind :: new_line_kind
  importDeclaration_semiColon :: bool
  typeAlias_semiColon :: bool
  expressionStatement_semiColon :: bool
  singleQuotes :: bool

text \<open>
  The \<^verbatim>\<open>Context\<close> object, split into what translation only reads
  (\<open>translation_context\<close>) and what it changes (\<open>pstate\<close>). \<open>logged\<close> lists the messages
  passed to \<^verbatim>\<open>context.log\<close>, oldest first. \<^verbatim>\<open>currentNode\<close> and
  \<^verbatim>\<open>parentStack\<close> are written by \<^verbatim>\<open>parseNode\<close> and read by nothing, and every
  call of \<^verbatim>\<open>parseNode\<close> leaves them as it found them; they are left out.
  \<^verbatim>\<open>removeStringIndentation\<close> is imported from \<^verbatim>\<open>../utils\<close>, which is not part of
  the sources read here: it is a parameter, applied to the text, the indent size and the
  \<^verbatim>\<open>isInStringAtPos\<close> callback.
\<close>

record translation_context =
  fileText :: string
  options :: resolved_configuration
  newLineKind :: string
  removeStringIndentation :: "string \<Rightarrow> nat \<Rightarrow> (nat \<Rightarrow> bool) \<Rightarrow> string"

record pstate =
  handledComments :: "comment set"
  nextInfo :: nat
  logged :: "string list"

section \<open>Strings\<close>

text \<open>\<^verbatim>\<open>String.prototype.substring\<close>: both indices are clamped to the length and
  swapped when the first is the larger.\<close>

definition substring :: "string \<Rightarrow> nat \<Rightarrow> nat \<Rightarrow> string" where
  "substring s a b =
     (let a' = min a (length s); b' = min b (length s);
          lo = min a' b'; hi = max a' b'
      in take (hi - lo) (drop lo s))"

text \<open>\<^verbatim>\<open>String.prototype.trim\<close> on the white space among the characters below 256.\<close>

definition isWhiteSpace :: "char \<Rightarrow> bool" where
  "isWhiteSpace c = (c \<in> {CHR 0x09, CHR 0x0A, CHR 0x0B, CHR 0x0C, CHR 0x0D, CHR 0x20, CHR 0xA0})"

definition trim :: "string \<Rightarrow> string" where
  "trim s = rev (dropWhile isWhiteSpace (rev (dropWhile isWhiteSpace s)))"

text \<open>\<^verbatim>\<open>value.replace(/q/g, "\\q")\<close> for a quote character \<open>q\<close>.\<close>

definition escapeQuote :: "char \<Rightarrow> string \<Rightarrow> string" where
  "escapeQuote q s = concat (map (\<lambda>c. if c = q then [CHR 0x5C, q] else [c]) s)"

section \<open>Helpers of the translator\<close>

definition createInfo :: "string \<Rightarrow> pstate \<Rightarrow> info \<times> pstate" where
  "createInfo n st =
     (\<lparr>info_id = nextInfo st, info_name = n\<rparr>, st\<lparr>nextInfo := Suc (nextInfo st)\<rparr>)"

definition withIndent :: "print_item list \<Rightarrow> print_item list" where
  "withIndent items = [Beh StartIndent] @ items @ [Beh FinishIndent]"

definition withHangingIndent :: "print_item list \<Rightarrow> print_item list" where
  "withHangingIndent items = [Beh StartHangingIndent] @ items @ [Beh FinishHangingIndent]"

definition surroundWithNewLines :: "translation_context \<Rightarrow> print_item list \<Rightarrow> print_item list" where
  "surroundWithNewLines ctx items = [Str (newLineKind ctx)] @ items @ [Str (newLineKind ctx)]"

definition prependToIterableIfHasItems :: "'a list \<Rightarrow> 'a list \<Rightarrow> 'a list" where
  "prependToIterableIfHasItems iterable items = (if iterable = [] then [] else items @ iterable)"

definition isMultipleLines ::
  "info \<Rightarrow> info \<Rightarrow> resolve_condition_context \<Rightarrow> bool \<Rightarrow> bool" where
  "isMultipleLines startInfo endInfo conditionContext defaultValue =
     (let resolvedStartInfo = getResolvedInfo conditionContext startInfo;
          resolvedEndInfo = getResolvedInfo conditionContext endInfo
      in if resolvedStartInfo = None \<or> resolvedEndInfo = None then defaultValue
         else lineNumber (the resolvedEndInfo) > lineNumber (the resolvedStartInfo))"

definition areInfoEqual ::
  "info \<Rightarrow> info \<Rightarrow> resolve_condition_context \<Rightarrow> bool \<Rightarrow> bool" where
  "areInfoEqual startInfo endInfo conditionContext defaultValue =
     (let resolvedStartInfo = getResolvedInfo conditionContext startInfo;
          resolvedEndInfo = getResolvedInfo conditionContext endInfo
      in if resolvedStartInfo = None \<or> resolvedEndInfo = None then defaultValue
         else lineNumber (the resolvedStartInfo) = lineNumber (the resolvedEndInfo)
            \<and> columnNumber (the resolvedStartInfo) = columnNumber (the resolvedEndInfo))"

definition newLineIfHangingSpaceOtherwise :: "translation_context \<Rightarrow> info \<Rightarrow> condition" where
  "newLineIfHangingSpaceOtherwise ctx i =
     Condition ''newLineIfHangingSpaceOtherwise''
       (ResolveFn (\<lambda>conditionContext.
          case getResolvedInfo conditionContext i of
            None \<Rightarrow> None
          | Some resolvedInfo \<Rightarrow>
              Some (lineStartIndentLevel (writerInfo conditionContext)
                      > lineStartIndentLevel resolvedInfo)))
       (Some [Str (newLineKind ctx)])
       (Some [Str '' ''])"

definition getUseNewLinesForNodes :: "node list \<Rightarrow> bool" where
  "getUseNewLinesForNodes nodes =
     (if length nodes \<le> 1 then False
      else if loc_start_line (base (nodes ! 0)) = loc_start_line (base (nodes ! 1)) then False
      else True)"

definition useNewLinesForParametersOrArguments :: "node list \<Rightarrow> bool" where
  "useNewLinesForParametersOrArguments params = getUseNewLinesForNodes params"

text \<open>\<^verbatim>\<open>getUseNewLines\<close> of \<^verbatim>\<open>parseNamedImports\<close>; \<open>b\<close> is the import declaration.\<close>

definition getUseNewLines :: "node_base \<Rightarrow> node list \<Rightarrow> bool" where
  "getUseNewLines b namedImports =
     (if length namedImports = 1
         \<and> loc_start_line (base (namedImports ! 0)) \<noteq> loc_start_line b then True
      else getUseNewLinesForNodes namedImports)"

definition hasLeadingCommentOnDifferentLine :: "node \<Rightarrow> comment list \<Rightarrow> bool" where
  "hasLeadingCommentOnDifferentLine n commentsToIgnore =
     (case leadingComments (base n) of
        None \<Rightarrow> False
      | Some cs \<Rightarrow>
          list_ex (\<lambda>c. if c \<in> set commentsToIgnore then False
                      else c_type c = CommentLine
                         \<or> c_loc_start_line c < loc_start_line (base n)) cs)"

section \<open>The comment attacher\<close>

text \<open>
  Producers are generators, run by whoever iterates the document. The model runs each to its
  end where the generator is yielded, that is, it reads the document once, in document order,
  and threads the state through in that order.
\<close>

definition parseCommentBlock :: "comment \<Rightarrow> print_item list" where
  "parseCommentBlock c = [Str ''/*'', Str (c_value c), Str ''*/'']"

definition parseCommentLine :: "comment \<Rightarrow> print_item list" where
  "parseCommentLine c = [Str (''// '' @ trim (c_value c)), Beh ExpectNewLine]"

definition parseComment :: "comment \<Rightarrow> pstate \<Rightarrow> print_item list \<times> pstate" where
  "parseComment c st =
     (if c \<in> handledComments st then ([], st)
      else
        let st' = st\<lparr>handledComments := insert c (handledComments st)\<rparr>
        in (case c_type c of
              CommentBlock \<Rightarrow> (parseCommentBlock c, st')
            | CommentLine \<Rightarrow> (parseCommentLine c, st')))"

text \<open>The \<^verbatim>\<open>lastNode\<close> of \<^verbatim>\<open>parseCommentCollection\<close>: a node or a comment.\<close>

datatype last_elem = LastNode node | LastComment comment

fun last_loc_end_line :: "last_elem \<Rightarrow> int" where
  "last_loc_end_line (LastNode n) = loc_end_line (base n)"
| "last_loc_end_line (LastComment c) = c_loc_end_line c"

fun last_is_CommentBlock :: "last_elem \<Rightarrow> bool" where
  "last_is_CommentBlock (LastNode n) = False"
| "last_is_CommentBlock (LastComment c) = (c_type c = CommentBlock)"

text \<open>What \<^verbatim>\<open>parseCommentCollection\<close> yields in front of a comment it has not skipped.\<close>

definition commentSeparator ::
  "translation_context \<Rightarrow> last_elem option \<Rightarrow> comment \<Rightarrow> print_item list" where
  "commentSeparator ctx lastNode c =
     (case lastNode of
        None \<Rightarrow> []
      | Some l \<Rightarrow>
          (if last_loc_end_line l < c_loc_start_line c - 1
           then [Str (newLineKind ctx), Str (newLineKind ctx)] else [])
          @ (if last_loc_end_line l < c_loc_start_line c then [Str (newLineKind ctx)]
             else if c_type c = CommentLine then [Str '' '']
             else if last_is_CommentBlock l then [Str '' '']
             else []))"

fun parseCommentCollection ::
  "translation_context \<Rightarrow> comment list \<Rightarrow> last_elem option \<Rightarrow> pstate
     \<Rightarrow> print_item list \<times> pstate" where
  "parseCommentCollection ctx [] lastNode st = ([], st)"
| "parseCommentCollection ctx (c # cs) lastNode st =
     (if c \<in> handledComments st then parseCommentCollection ctx cs lastNode st
      else
        let sep = commentSeparator ctx lastNode c;
            (items, st1) = parseComment c st;
            (rest, st2) = parseCommentCollection ctx cs (Some (LastComment c)) st1
        in (sep @ items @ rest, st2))"

definition parseLeadingComments ::
  "translation_context \<Rightarrow> node \<Rightarrow> pstate \<Rightarrow> print_item list \<times> pstate" where
  "parseLeadingComments ctx n st =
     (case leadingComments (base n) of
        None \<Rightarrow> ([], st)
      | Some cs \<Rightarrow> parseCommentCollection ctx cs None st)"

definition parseTrailingComments ::
  "translation_context \<Rightarrow> node \<Rightarrow> pstate \<Rightarrow> print_item list \<times> pstate" where
  "parseTrailingComments ctx n st =
     (case trailingComments (base n) of
        None \<Rightarrow> ([], st)
      | Some cs \<Rightarrow> parseCommentCollection ctx cs (Some (LastNode n)) st)"

text \<open>\<^verbatim>\<open>getFirstLineTrailingComments\<close> of \<^verbatim>\<open>parseBlockStatement\<close>; \<open>b\<close> is the block.\<close>

fun firstLineTrailingComments ::
  "node_base \<Rightarrow> comment list \<Rightarrow> pstate \<Rightarrow> print_item list \<times> pstate" where
  "firstLineTrailingComments b [] st = ([], st)"
| "firstLineTrailingComments b (trailingComment # cs) st =
     (if c_loc_start_line trailingComment = loc_start_line b then
        let (items, st1) = parseComment trailingComment st;
            (rest, st2) = firstLineTrailingComments b cs st1
        in ((if c_type trailingComment = CommentLine then [Str '' ''] else []) @ items @ rest,
            st2)
      else firstLineTrailingComments b cs st)"

definition getFirstLineTrailingComments ::
  "node_base \<Rightarrow> pstate \<Rightarrow> print_item list \<times> pstate" where
  "getFirstLineTrailingComments b st =
     (case trailingComments b of
        None \<Rightarrow> ([], st)
      | Some cs \<Rightarrow> firstLineTrailingComments b cs st)"

section \<open>Helpers of the if statement\<close>

text \<open>\<^verbatim>\<open>getHeaderTrailingComments\<close>, of the consequent of the if statement.\<close>

definition checkComments :: "node \<Rightarrow> comment list \<Rightarrow> comment list" where
  "checkComments consequent comments =
     filter (\<lambda>c. c_loc_start_line c = loc_start_line (base consequent)) comments"

definition checkLeadingComments :: "node \<Rightarrow> node \<Rightarrow> comment list" where
  "checkLeadingComments consequent n =
     (case leadingComments (base n) of
        None \<Rightarrow> []
      | Some cs \<Rightarrow> checkComments consequent cs)"

definition getHeaderTrailingComments :: "node \<Rightarrow> comment list" where
  "getHeaderTrailingComments consequent =
     (if isBlockStatement consequent then
        (case (case leadingComments (base consequent) of
                 None \<Rightarrow> None
               | Some cs \<Rightarrow> find (\<lambda>c. c_type c = CommentLine) cs) of
           Some commentLine \<Rightarrow> [commentLine]
         | None \<Rightarrow>
             if length (body_of consequent) > 0
             then checkLeadingComments consequent (body_of consequent ! 0)
             else (case innerComments (base consequent) of
                     None \<Rightarrow> []
                   | Some cs \<Rightarrow> checkComments consequent cs))
      else checkLeadingComments consequent consequent)"

definition consequentRequiresBraces :: "node \<Rightarrow> comment list \<Rightarrow> bool" where
  "consequentRequiresBraces statement headerTrailingComments =
     (if isBlockStatement statement then
        (if length (body_of statement) = 1
            \<and> \<not> hasLeadingCommentOnDifferentLine (body_of statement ! 0) headerTrailingComments
         then False else True)
      else hasLeadingCommentOnDifferentLine statement headerTrailingComments)"

definition parseHeaderTrailingComment ::
  "translation_context \<Rightarrow> comment list \<Rightarrow> pstate \<Rightarrow> print_item list \<times> pstate" where
  "parseHeaderTrailingComment ctx headerTrailingComments st =
     (let (result, st1) = parseCommentCollection ctx headerTrailingComments None st
      in (prependToIterableIfHasItems result [Str '' ''], st1))"

definition openBraceCondition ::
  "translation_context \<Rightarrow> bool \<Rightarrow> info \<Rightarrow> info \<Rightarrow> info \<Rightarrow> info \<Rightarrow> condition" where
  "openBraceCondition ctx requireBraces startHeaderInfo endHeaderInfo
       startStatementsInfo endStatementsInfo =
     Condition ''openBrace''
       (ResolveFn (\<lambda>conditionContext.
          Some (requireBraces
             \<or> isMultipleLines startHeaderInfo endHeaderInfo conditionContext False
             \<or> isMultipleLines startStatementsInfo endStatementsInfo conditionContext False)))
       (Some [Cond (newLineIfHangingSpaceOtherwise ctx startHeaderInfo), Str ''{''])
       None"

definition closeBraceNewLineCondition ::
  "translation_context \<Rightarrow> info \<Rightarrow> info \<Rightarrow> condition" where
  "closeBraceNewLineCondition ctx startStatementsInfo endStatementsInfo =
     Condition ''closeBraceNewLine''
       (ResolveFn (\<lambda>conditionContext.
          Some (\<not> areInfoEqual startStatementsInfo endStatementsInfo conditionContext False)))
       (Some [Str (newLineKind ctx)])
       None"

definition closeBraceCondition ::
  "translation_context \<Rightarrow> condition \<Rightarrow> info \<Rightarrow> info \<Rightarrow> condition" where
  "closeBraceCondition ctx openBrace startStatementsInfo endStatementsInfo =
     Condition ''closeBrace''
       (ConditionRef openBrace)
       (Some [Cond (closeBraceNewLineCondition ctx startStatementsInfo endStatementsInfo),
              Str ''}''])
       None"

section \<open>Literals and unknown nodes\<close>

definition parseStringLiteral :: "translation_context \<Rightarrow> string \<Rightarrow> string" where
  "parseStringLiteral ctx v =
     (if singleQuotes (options ctx)
      then [CHR 0x27] @ escapeQuote (CHR 0x27) v @ [CHR 0x27]
      else [CHR 0x22] @ escapeQuote (CHR 0x22) v @ [CHR 0x22])"

definition parseBooleanLiteral :: "bool \<Rightarrow> string" where
  "parseBooleanLiteral v = (if v then ''true'' else ''false'')"

fun parseKeyword :: "keyword_kind \<Rightarrow> string" where
  "parseKeyword TSStringKeyword = ''string''"
| "parseKeyword TSNumberKeyword = ''number''"
| "parseKeyword TSBooleanKeyword = ''boolean''"
| "parseKeyword TSAnyKeyword = ''any''"
| "parseKeyword TSUnknownKeyword = ''unknown''"
| "parseKeyword TSObjectKeyword = ''object''"
| "parseKeyword ThisExpression = ''this''"

text \<open>\<^verbatim>\<open>parseUnknownNode\<close>, of a node of kind \<open>kind\<close> with base \<open>b\<close>.\<close>

definition unknownNodeMessage :: "string \<Rightarrow> string \<Rightarrow> string" where
  "unknownNodeMessage kind nodeText =
     ''Not implemented node type: '' @ kind @ '' ('' @ nodeText @ '')''"

definition parseUnknownNode ::
  "translation_context \<Rightarrow> node_base \<Rightarrow> string \<Rightarrow> pstate \<Rightarrow> print_item \<times> pstate" where
  "parseUnknownNode ctx b kind st =
     (let nodeText = substring (fileText ctx) (n_start b) (n_end b)
      in (Unknown (removeStringIndentation ctx nodeText 2 (\<lambda>_. False)),
          st\<lparr>logged := logged st @ [unknownNodeMessage kind nodeText]\<rparr>))"

section \<open>The translator\<close>

text \<open>
  \<^verbatim>\<open>parseNode\<close> and the producers it dispatches to. \<open>parseFunc\<close> is the lookup
  \<^verbatim>\<open>parseObj[node.type] || parseUnknownNode\<close> together with the producer found, one equation
  per kind. A producer that returns one item gives a one-element list:
  \<^verbatim>\<open>isPrintItemIterator\<close> (imported from \<^verbatim>\<open>../utils\<close>, not part of the sources read
  here) is taken to tell an iterator from a single item, as its type says. The loops over
  \<^verbatim>\<open>i\<close> are recursions over the list; \<open>previous\<close> is \<^verbatim>\<open>statements[i - 1]\<close>
  and \<open>first\<close> is \<^verbatim>\<open>i = 0\<close>.

  \<^verbatim>\<open>parseUnknownNode\<close> is no generator: it logs when \<^verbatim>\<open>parseNode\<close> is called, before the
  group's items (and so the node's leading comments) are read. The model logs after the
  leading comments. Logging and comment handling change different parts of the state and
  neither reads the other's, so the items and the final state are the same.
\<close>

lemma size_option_case_less:
  "2 * (case d of None \<Rightarrow> 0 | Some x \<Rightarrow> size x) < Suc (2 * size_option size d)"
  by (cases d) auto

lemma size_find_le:
  "(case find P xs of None \<Rightarrow> 0 | Some x \<Rightarrow> size x) \<le> size_list size xs"
  by (induction xs) auto

lemma size_find_less:
  "2 * (case find P xs of None \<Rightarrow> 0 | Some x \<Rightarrow> size x) < Suc (2 * size_list size xs + k)"
  using size_find_le [of P xs] by simp

lemma size_filter_le:
  "size_list f (filter P xs) \<le> size_list f xs"
  by (induction xs) auto

lemma size_filter_less:
  "2 * size_list size (filter P xs) < Suc (2 * size_list size xs + k)"
  using size_filter_le [of size P xs] by simp

lemma size_body_of_less:
  "isBlockStatement n \<Longrightarrow> 2 * size_list size (body_of n) < Suc (k + 2 * size n)"
  by (cases n) auto

function (sequential)
    parseNode ::
    "translation_context \<Rightarrow> node option \<Rightarrow> pstate \<Rightarrow> print_item \<times> pstate"
and parseFunc ::
    "translation_context \<Rightarrow> node \<Rightarrow> pstate \<Rightarrow> print_item list \<times> pstate"
and parseStatements ::
    "translation_context \<Rightarrow> node list \<Rightarrow> comment list option \<Rightarrow> pstate
       \<Rightarrow> print_item list \<times> pstate"
and parseStatementsFrom ::
    "translation_context \<Rightarrow> node option \<Rightarrow> node list \<Rightarrow> pstate
       \<Rightarrow> print_item list \<times> pstate"
and parseNamedImports ::
    "translation_context \<Rightarrow> node_base \<Rightarrow> node list \<Rightarrow> pstate
       \<Rightarrow> print_item list \<times> pstate"
and parseSpecifiers ::
    "translation_context \<Rightarrow> bool \<Rightarrow> bool \<Rightarrow> node list \<Rightarrow> pstate
       \<Rightarrow> print_item list \<times> pstate"
and parseTypeParameterDeclaration ::
    "translation_context \<Rightarrow> node list \<Rightarrow> pstate \<Rightarrow> print_item \<times> pstate"
and parseTypeParameterList ::
    "translation_context \<Rightarrow> node list \<Rightarrow> pstate \<Rightarrow> print_item list \<times> pstate"
and parseParametersOrArguments ::
    "translation_context \<Rightarrow> node list \<Rightarrow> pstate \<Rightarrow> print_item list \<times> pstate"
and parseParameterList ::
    "translation_context \<Rightarrow> bool \<Rightarrow> node list \<Rightarrow> pstate
       \<Rightarrow> print_item list \<times> pstate"
and parseUnionTypes ::
    "translation_context \<Rightarrow> bool \<Rightarrow> bool \<Rightarrow> node list \<Rightarrow> pstate
       \<Rightarrow> print_item list \<times> pstate"
where
  "parseNode ctx None st = (Group [], st)"
| "parseNode ctx (Some n) st =
     (case parseLeadingComments ctx n st of (leading, st1) \<Rightarrow>
      case parseFunc ctx n st1 of (printItem, st2) \<Rightarrow>
      case parseTrailingComments ctx n st2 of (trailing, st3) \<Rightarrow>
        (Group (leading @ printItem @ trailing), st3))"

| "parseFunc ctx (Program b statements) st =
     parseStatements ctx statements (innerComments b) st"
| "parseFunc ctx (BlockStatement b statements) st =
     (case getFirstLineTrailingComments b st of (firstLine, st1) \<Rightarrow>
      case parseStatements ctx statements (innerComments b) st1 of (inner, st2) \<Rightarrow>
        ([Str ''{''] @ firstLine @ [Str (newLineKind ctx)] @ withIndent inner @ [Str ''}''],
         st2))"
| "parseFunc ctx (Identifier b name) st = ([Str name], st)"
| "parseFunc ctx (ExportNamedDeclaration b declaration) st =
     (case parseNode ctx declaration st of (d, st1) \<Rightarrow>
        ([Str ''export '', d], st1))"
| "parseFunc ctx (FunctionDeclaration b async generator ident typeParameters params
        returnType fbody) st =
     (case createInfo ''functionHeaderStart'' st of (functionHeaderStartInfo, st1) \<Rightarrow>
      case (case ident of
              None \<Rightarrow> ([], st1)
            | Some i \<Rightarrow>
                (case parseNode ctx (Some i) st1 of (g, s) \<Rightarrow> ([Str '' '', g], s)))
        of (identItems, st2) \<Rightarrow>
      case (case typeParameters of
              Present tps \<Rightarrow>
                (case parseTypeParameterDeclaration ctx tps st2 of (g, s) \<Rightarrow> ([g], s))
            | _ \<Rightarrow> ([], st2))
        of (typeParameterItems, st3) \<Rightarrow>
      case parseParametersOrArguments ctx params st3 of (paramItems, st4) \<Rightarrow>
      case (case returnType of
              Present typeAnnotation \<Rightarrow>
                (case parseNode ctx (Some typeAnnotation) st4 of (g, s) \<Rightarrow>
                   ([Str '': '', g], s))
            | _ \<Rightarrow> ([], st4))
        of (returnItems, st5) \<Rightarrow>
      case parseNode ctx (Some fbody) st5 of (bodyItem, st6) \<Rightarrow>
        ([InfoItem functionHeaderStartInfo]
         @ (if async then [Str ''async ''] else [])
         @ [Str ''function'']
         @ (if generator then [Str ''*''] else [])
         @ identItems @ typeParameterItems @ paramItems @ returnItems
         @ [Cond (newLineIfHangingSpaceOtherwise ctx functionHeaderStartInfo)]
         @ [bodyItem],
         st6))"
| "parseFunc ctx (TSTypeAliasDeclaration b ident typeParameters typeAnnotation) st =
     (case parseNode ctx (Some ident) st of (i, st1) \<Rightarrow>
      case (case typeParameters of
              None \<Rightarrow> ([], st1)
            | Some tps \<Rightarrow>
                (case parseTypeParameterDeclaration ctx tps st1 of (g, s) \<Rightarrow> ([g], s)))
        of (typeParameterItems, st2) \<Rightarrow>
      case parseNode ctx (Some typeAnnotation) st2 of (t, st3) \<Rightarrow>
        ([Str ''type '', i] @ typeParameterItems @ [Str '' = '', t]
         @ (if typeAlias_semiColon (options ctx) then [Str '';''] else []),
         st3))"
| "parseFunc ctx (ImportDeclaration b specifiers source) st =
     (let defaultImport = find isImportDefaultSpecifier specifiers;
          namespaceImport = find isImportNamespaceSpecifier specifiers;
          namedImports = filter isImportSpecifier specifiers
      in
      case (case defaultImport of
              None \<Rightarrow> ([], st)
            | Some d \<Rightarrow>
                (case parseNode ctx (Some d) st of (g, s) \<Rightarrow>
                   ([g] @ (if namespaceImport \<noteq> None \<or> length namedImports > 0
                           then [Str '', ''] else []), s)))
        of (defaultItems, st1) \<Rightarrow>
      case (case namespaceImport of
              None \<Rightarrow> ([], st1)
            | Some ns \<Rightarrow> (case parseNode ctx (Some ns) st1 of (g, s) \<Rightarrow> ([g], s)))
        of (namespaceItems, st2) \<Rightarrow>
      case parseNamedImports ctx b namedImports st2 of (namedItems, st3) \<Rightarrow>
      case parseNode ctx (Some source) st3 of (sourceItem, st4) \<Rightarrow>
        ([Str ''import ''] @ defaultItems @ namespaceItems @ namedItems
         @ (if defaultImport \<noteq> None \<or> namespaceImport \<noteq> None \<or> length namedImports > 0
            then [Str '' from ''] else [])
         @ [sourceItem]
         @ (if importDeclaration_semiColon (options ctx) then [Str '';''] else []),
         st4))"
| "parseFunc ctx (ExpressionStatement b expression) st =
     (case parseNode ctx (Some expression) st of (e, st1) \<Rightarrow>
        ([e] @ (if expressionStatement_semiColon (options ctx) then [Str '';''] else []),
         st1))"
| "parseFunc ctx (IfStatement b test consequent alternate) st =
     (case createInfo ''startHeader'' st of (startHeaderInfo, st1) \<Rightarrow>
      case parseNode ctx (Some test) st1 of (testItem, st2) \<Rightarrow>
      case createInfo ''endHeader'' st2 of (endHeaderInfo, st3) \<Rightarrow>
      let headerTrailingComments = getHeaderTrailingComments consequent;
          requireBraces = consequentRequiresBraces consequent headerTrailingComments
      in
      case createInfo ''startStatements'' st3 of (startStatementsInfo, st4) \<Rightarrow>
      case createInfo ''endStatements'' st4 of (endStatementsInfo, st5) \<Rightarrow>
      let openBrace = openBraceCondition ctx requireBraces startHeaderInfo endHeaderInfo
                        startStatementsInfo endStatementsInfo
      in
      case parseHeaderTrailingComment ctx headerTrailingComments st5
        of (headerCommentItems, st6) \<Rightarrow>
      case (if isBlockStatement consequent then
              (case parseLeadingComments ctx consequent st6 of (leading, s1) \<Rightarrow>
               case parseStatements ctx (body_of consequent)
                      (innerComments (base consequent)) s1 of (statementItems, s2) \<Rightarrow>
               case parseTrailingComments ctx consequent s2 of (trailing, s3) \<Rightarrow>
                 (withIndent (leading @ statementItems) @ trailing, s3))
            else
              (case parseNode ctx (Some consequent) st6 of (g, s) \<Rightarrow> (withIndent [g], s)))
        of (consequentItems, st7) \<Rightarrow>
        ([InfoItem startHeaderInfo, Str ''if ('', testItem, Str '')'', InfoItem endHeaderInfo,
          Cond openBrace]
         @ headerCommentItems
         @ [Str (newLineKind ctx), InfoItem startStatementsInfo]
         @ consequentItems
         @ [InfoItem endStatementsInfo,
            Cond (closeBraceCondition ctx openBrace startStatementsInfo endStatementsInfo)],
         st7))"
| "parseFunc ctx (CallExpression b callee arguments) st =
     (case parseNode ctx (Some callee) st of (c, st1) \<Rightarrow>
      case parseParametersOrArguments ctx arguments st1 of (args, st2) \<Rightarrow>
        ([c] @ args, st2))"
| "parseFunc ctx (ImportDefaultSpecifier b local) st =
     (case parseNode ctx (Some local) st of (g, st1) \<Rightarrow> ([g], st1))"
| "parseFunc ctx (ImportNamespaceSpecifier b local) st =
     (case parseNode ctx (Some local) st of (g, st1) \<Rightarrow> ([Str ''* as '', g], st1))"
| "parseFunc ctx (ImportSpecifier b imported local) st =
     (if n_start (base imported) = n_start (base local) then
        (case parseNode ctx (Some imported) st of (g, st1) \<Rightarrow> ([g], st1))
      else
        (case parseNode ctx (Some imported) st of (i, st1) \<Rightarrow>
         case parseNode ctx (Some local) st1 of (l, st2) \<Rightarrow>
           ([i, Str '' as '', l], st2)))"
| "parseFunc ctx (StringLiteral b v) st = ([Str (parseStringLiteral ctx v)], st)"
| "parseFunc ctx (BooleanLiteral b v) st = ([Str (parseBooleanLiteral v)], st)"
| "parseFunc ctx (KeywordNode b k) st = ([Str (parseKeyword k)], st)"
| "parseFunc ctx (TSTypeParameter b name constraint dflt) st =
     (case (case constraint of
              None \<Rightarrow> ([], st)
            | Some c \<Rightarrow>
                (case parseNode ctx (Some c) st of (g, s) \<Rightarrow> ([Str '' extends '', g], s)))
        of (constraintItems, st1) \<Rightarrow>
      case (case dflt of
              None \<Rightarrow> ([], st1)
            | Some d \<Rightarrow>
                (case parseNode ctx (Some d) st1 of (g, s) \<Rightarrow> ([Str '' = '', g], s)))
        of (defaultItems, st2) \<Rightarrow>
        ([Str name] @ constraintItems @ defaultItems, st2))"
| "parseFunc ctx (TSUnionType b types) st =
     (let useNewLines = getUseNewLinesForNodes types
      in
      case parseUnionTypes ctx useNewLines True types st of (items, st1) \<Rightarrow>
        (withHangingIndent items, st1))"
| "parseFunc ctx (OtherNode b kind hb) st =
     (case parseUnknownNode ctx b kind st of (u, st1) \<Rightarrow> ([u], st1))"

| "parseStatements ctx statements inner st =
     (case parseStatementsFrom ctx None statements st of (items, st1) \<Rightarrow>
      case (case inner of
              None \<Rightarrow> ([], st1)
            | Some cs \<Rightarrow> parseCommentCollection ctx cs None st1)
        of (commentItems, st2) \<Rightarrow>
        (items @ commentItems, st2))"

| "parseStatementsFrom ctx previous [] st = ([], st)"
| "parseStatementsFrom ctx previous (statement # statements) st =
     (let separator =
            (case previous of
               None \<Rightarrow> []
             | Some p \<Rightarrow>
                 if hasBody p \<or> hasBody statement
                 then [Str (newLineKind ctx), Str (newLineKind ctx)]
                 else [Str (newLineKind ctx)])
      in
      case parseNode ctx (Some statement) st of (g, st1) \<Rightarrow>
      case parseStatementsFrom ctx (Some statement) statements st1 of (rest, st2) \<Rightarrow>
        (separator @ [g] @ rest, st2))"

| "parseNamedImports ctx b namedImports st =
     (if length namedImports = 0 then ([], st)
      else
        let useNewLines = getUseNewLines b namedImports;
            braceSeparator = (if useNewLines then newLineKind ctx else '' '')
        in
        case parseSpecifiers ctx useNewLines True namedImports st
          of (specifierItems, st1) \<Rightarrow>
          ([Str ''{'', Str braceSeparator]
           @ (if useNewLines then withIndent specifierItems
              else withHangingIndent specifierItems)
           @ [Str braceSeparator, Str ''}''],
           st1))"

| "parseSpecifiers ctx useNewLines first [] st = ([], st)"
| "parseSpecifiers ctx useNewLines first (specifier # specifiers) st =
     (let separator =
            (if first then []
             else [Str '','',
                   if useNewLines then Str (newLineKind ctx) else Beh SpaceOrNewLine])
      in
      case parseNode ctx (Some specifier) st of (g, st1) \<Rightarrow>
      case parseSpecifiers ctx useNewLines False specifiers st1 of (rest, st2) \<Rightarrow>
        (separator @ [g] @ rest, st2))"

| "parseTypeParameterDeclaration ctx params st =
     (let useNewLines = getUseNewLinesForNodes params
      in
      case parseTypeParameterList ctx params st of (items, st1) \<Rightarrow>
        (Group ([Str ''<'']
                @ (if useNewLines then surroundWithNewLines ctx (withIndent items)
                   else withHangingIndent items)
                @ [Str ''>'']),
         st1))"

| "parseTypeParameterList ctx [] st = ([], st)"
| "parseTypeParameterList ctx (param # params) st =
     (case parseNode ctx (Some param) st of (g, st1) \<Rightarrow>
      let separator = (if params \<noteq> [] then [Str '','', Beh SpaceOrNewLine] else [])
      in
      case parseTypeParameterList ctx params st1 of (rest, st2) \<Rightarrow>
        ([g] @ separator @ rest, st2))"

| "parseParametersOrArguments ctx params st =
     (let useNewLines = useNewLinesForParametersOrArguments params
      in
      case parseParameterList ctx useNewLines params st of (items, st1) \<Rightarrow>
        ([Str ''('']
         @ (if useNewLines then surroundWithNewLines ctx (withIndent items)
            else withHangingIndent items)
         @ [Str '')''],
         st1))"

| "parseParameterList ctx useNewLines [] st = ([], st)"
| "parseParameterList ctx useNewLines (param # params) st =
     (case parseNode ctx (Some param) st of (g, st1) \<Rightarrow>
      let separator =
            (if params \<noteq> []
             then [Str '','',
                   if useNewLines then Str (newLineKind ctx) else Beh SpaceOrNewLine]
             else [])
      in
      case parseParameterList ctx useNewLines params st1 of (rest, st2) \<Rightarrow>
        ([g] @ separator @ rest, st2))"

| "parseUnionTypes ctx useNewLines first [] st = ([], st)"
| "parseUnionTypes ctx useNewLines first (t # types) st =
     (let separator =
            (if first then []
             else [if useNewLines then Str (newLineKind ctx) else Beh SpaceOrNewLine,
                   Str ''| ''])
      in
      case parseNode ctx (Some t) st of (g, st1) \<Rightarrow>
      case parseUnionTypes ctx useNewLines False types st1 of (rest, st2) \<Rightarrow>
        (separator @ [g] @ rest, st2))"
  by pat_completeness auto

termination
  apply (relation "measure (\<lambda>x. case x of
      Inl (Inl (Inl (ctx, n, st))) \<Rightarrow> 2 * (case n of None \<Rightarrow> 0 | Some m \<Rightarrow> size m) + 1
    | Inl (Inl (Inr (ctx, n, st))) \<Rightarrow> 2 * size n
    | Inl (Inr (Inl (ctx, ss, inner, st))) \<Rightarrow> 2 * size_list size ss + 1
    | Inl (Inr (Inr (Inl (ctx, previous, ss, st)))) \<Rightarrow> 2 * size_list size ss
    | Inl (Inr (Inr (Inr (ctx, b, ss, st)))) \<Rightarrow> 2 * size_list size ss + 1
    | Inr (Inl (Inl (ctx, u, first, ss, st))) \<Rightarrow> 2 * size_list size ss
    | Inr (Inl (Inr (Inl (ctx, ss, st)))) \<Rightarrow> 2 * size_list size ss + 1
    | Inr (Inl (Inr (Inr (ctx, ss, st)))) \<Rightarrow> 2 * size_list size ss
    | Inr (Inr (Inl (ctx, ss, st))) \<Rightarrow> 2 * size_list size ss + 1
    | Inr (Inr (Inr (Inl (ctx, u, ss, st)))) \<Rightarrow> 2 * size_list size ss
    | Inr (Inr (Inr (Inr (ctx, u, first, ss, st)))) \<Rightarrow> 2 * size_list size ss)")
  apply (auto simp: size_option_case_less size_find_less size_filter_less size_body_of_less)
  done

section \<open>The entry point\<close>

text \<open>
  \<^verbatim>\<open>parseFile\<close>. Of the file object only \<^verbatim>\<open>file.program\<close> is read.
  \<^verbatim>\<open>resolveNewLineKindFromText\<close> is imported from \<^verbatim>\<open>../configuration\<close>, which is
  not part of the sources read here, and is a parameter like \<^verbatim>\<open>removeStringIndentation\<close>.
  The logging callback that \<^verbatim>\<open>parseFile\<close> installs writes its message to the console
  behind a fixed prefix: \<open>consoleOutput\<close> gives the lines written.
\<close>

record babel_file =
  program :: node

definition newLineString :: "new_line_kind \<Rightarrow> string" where
  "newLineString k = (case k of CRLF \<Rightarrow> [CHR 0x0D, CHR 0x0A] | _ \<Rightarrow> [CHR 0x0A])"

definition createContext ::
  "(string \<Rightarrow> nat \<Rightarrow> (nat \<Rightarrow> bool) \<Rightarrow> string) \<Rightarrow> (string \<Rightarrow> string)
     \<Rightarrow> string \<Rightarrow> resolved_configuration \<Rightarrow> translation_context" where
  "createContext removeIndentation resolveNewLineKindFromText text opts =
     \<lparr>fileText = text,
      options = opts,
      newLineKind = (if opt_newLineKind opts = Auto then resolveNewLineKindFromText text
                     else newLineString (opt_newLineKind opts)),
      removeStringIndentation = removeIndentation\<rparr>"

definition initialState :: pstate where
  "initialState = \<lparr>handledComments = {}, nextInfo = 0, logged = []\<rparr>"

definition consoleOutput :: "pstate \<Rightarrow> string list" where
  "consoleOutput st = map (\<lambda>message. ''[dprint]: '' @ message) (logged st)"

definition endOfFileNewLine :: "translation_context \<Rightarrow> condition" where
  "endOfFileNewLine ctx =
     Condition ''endOfFileNewLine''
       (ResolveFn (\<lambda>conditionContext.
          Some (columnNumber (writerInfo conditionContext) > 0
              \<or> lineNumber (writerInfo conditionContext) > 0)))
       (Some [Str (newLineKind ctx)])
       None"

definition parseFile ::
  "(string \<Rightarrow> nat \<Rightarrow> (nat \<Rightarrow> bool) \<Rightarrow> string) \<Rightarrow> (string \<Rightarrow> string)
     \<Rightarrow> babel_file \<Rightarrow> string \<Rightarrow> resolved_configuration \<Rightarrow> print_item \<times> pstate" where
  "parseFile removeIndentation resolveNewLineKindFromText file text opts =
     (let ctx = createContext removeIndentation resolveNewLineKindFromText text opts
      in
      case parseNode ctx (Some (program file)) initialState of (g, st) \<Rightarrow>
        (Group [g, Cond (endOfFileNewLine ctx)], st))"

section \<open>The formatter of the wasm wrapper\<close>

text \<open>
  The second source file wraps a WebAssembly plugin instance in a formatter object. The
  instance is foreign code: its state is a type parameter \<open>'w\<close> and its exports are a record
  of functions on that state, each returning its result with the new state. \<open>memory\<close> is the
  contents of \<^verbatim>\<open>wasmInstance.exports.memory.buffer\<close>, and \<open>memory_store\<close> replaces them.
  Lengths, pointers and the buffer size are natural numbers, the response code of
  \<^verbatim>\<open>format\<close> is an integer.
\<close>

type_synonym byte = "8 word"

record 'w wasm_exports =
  set_file_path :: "'w \<Rightarrow> 'w"
  get_formatted_text :: "'w \<Rightarrow> nat \<times> 'w"
  format :: "'w \<Rightarrow> int \<times> 'w"
  get_error_text :: "'w \<Rightarrow> nat \<times> 'w"
  get_plugin_info :: "'w \<Rightarrow> nat \<times> 'w"
  get_resolved_config :: "'w \<Rightarrow> nat \<times> 'w"
  get_config_diagnostics :: "'w \<Rightarrow> nat \<times> 'w"
  set_global_config :: "'w \<Rightarrow> 'w"
  set_plugin_config :: "'w \<Rightarrow> 'w"
  get_plugin_schema_version :: "'w \<Rightarrow> int \<times> 'w"
  get_wasm_memory_buffer :: "'w \<Rightarrow> nat \<times> 'w"
  get_wasm_memory_buffer_size :: "'w \<Rightarrow> nat \<times> 'w"
  add_to_shared_bytes_from_buffer :: "nat \<Rightarrow> 'w \<Rightarrow> 'w"
  set_buffer_with_shared_bytes :: "nat \<Rightarrow> nat \<Rightarrow> 'w \<Rightarrow> 'w"
  clear_shared_bytes :: "nat \<Rightarrow> 'w \<Rightarrow> 'w"
  memory :: "'w \<Rightarrow> byte list"
  memory_store :: "byte list \<Rightarrow> 'w \<Rightarrow> 'w"

text \<open>
  What the wrapper uses of the JavaScript library: \<^verbatim>\<open>TextEncoder\<close>, \<^verbatim>\<open>TextDecoder\<close>,
  \<^verbatim>\<open>JSON.stringify\<close> (of the global configuration, and of an object of string
  properties), \<^verbatim>\<open>JSON.parse\<close> (which may throw), \<^verbatim>\<open>toString\<close> of a property value
  (\<open>None\<close> when the value has no such method) and the conversion of a number to text.
\<close>

datatype js_error = Error string | RangeError | TypeError | SyntaxError

datatype 'a outcome = Returned 'a | Threw js_error

record ('g, 'v, 'j) js_library =
  encode :: "string \<Rightarrow> byte list"
  decode :: "byte list \<Rightarrow> string"
  stringify :: "'g \<Rightarrow> string"
  stringifyProps :: "(string \<times> string) list \<Rightarrow> string"
  toString :: "'v \<Rightarrow> string option"
  numberToString :: "int \<Rightarrow> string"
  jsonParse :: "string \<Rightarrow> 'j outcome"

text \<open>The variables the formatter object closes over.\<close>

record 'w formatter =
  instance_state :: 'w
  bufferSize :: nat
  configSet :: bool

text \<open>\<^verbatim>\<open>new Uint8Array(buffer, pointer, count)\<close> throws a \<^verbatim>\<open>RangeError\<close> when the view
  does not fit in the buffer.\<close>

definition viewFits :: "'w wasm_exports \<Rightarrow> 'w \<Rightarrow> nat \<Rightarrow> nat \<Rightarrow> bool" where
  "viewFits x w pointer count = (pointer + count \<le> length (memory x w))"

definition writeAt :: "nat \<Rightarrow> byte list \<Rightarrow> byte list \<Rightarrow> byte list" where
  "writeAt offset bytes target = take offset target @ bytes @ drop (offset + length bytes) target"

text \<open>
  The loop of \<^verbatim>\<open>sendString\<close>. \<^verbatim>\<open>wasmBuffer.set(encodedText, index)\<close> copies the whole
  encoded text to offset \<open>index\<close> of the view and throws a \<^verbatim>\<open>RangeError\<close> when it does
  not fit there; a pass that does not throw has written the whole text, which ends the loop.
\<close>

function sendLoop ::
  "'w wasm_exports \<Rightarrow> nat \<Rightarrow> byte list \<Rightarrow> nat \<Rightarrow> 'w \<Rightarrow> unit outcome \<times> 'w" where
  "sendLoop x bsize encodedText index w =
     (if index < length encodedText then
        (case get_wasm_memory_buffer x w of (pointer, w1) \<Rightarrow>
           if \<not> viewFits x w1 pointer (min (length encodedText - index) bsize)
           then (Threw RangeError, w1)
           else if index + length encodedText > min (length encodedText - index) bsize
           then (Threw RangeError, w1)
           else sendLoop x bsize encodedText
                  (index + min (length encodedText - index) bsize)
                  (add_to_shared_bytes_from_buffer x (min (length encodedText - index) bsize)
                     (memory_store x
                        (writeAt (pointer + index) encodedText (memory x w1)) w1)))
      else (Returned (), w))"
  by pat_completeness auto

termination
  by (relation "measure (\<lambda>(x, bsize, encodedText, index, w). length encodedText - index)") auto

definition sendString ::
  "('g, 'v, 'j) js_library \<Rightarrow> 'w wasm_exports \<Rightarrow> nat \<Rightarrow> string \<Rightarrow> 'w \<Rightarrow> unit outcome \<times> 'w" where
  "sendString lib x bsize text w =
     (let encodedText = encode lib text
      in sendLoop x bsize encodedText 0 (clear_shared_bytes x (length encodedText) w))"

text \<open>
  The loop of \<^verbatim>\<open>receiveString\<close>. \<^verbatim>\<open>buffer.set(wasmBuffer)\<close> copies the view to the start
  of the buffer. With a buffer size of 0 the loop reads nothing and never ends: not returning
  is the value \<open>None\<close>.
\<close>

partial_function (option) receiveLoop ::
  "'w wasm_exports \<Rightarrow> nat \<Rightarrow> nat \<Rightarrow> byte list \<Rightarrow> nat \<Rightarrow> 'w
     \<Rightarrow> (byte list outcome \<times> 'w) option" where
  "receiveLoop x bsize len buffer index w =
     (if index < len then
        (let readCount = min (len - index) bsize;
             w1 = set_buffer_with_shared_bytes x index readCount w;
             pointer = fst (get_wasm_memory_buffer x w1);
             w2 = snd (get_wasm_memory_buffer x w1)
         in if \<not> viewFits x w2 pointer readCount then Some (Threw RangeError, w2)
            else receiveLoop x bsize len
                   (writeAt 0 (take readCount (drop pointer (memory x w2))) buffer)
                   (index + readCount) w2)
      else Some (Returned buffer, w))"

definition receiveString ::
  "('g, 'v, 'j) js_library \<Rightarrow> 'w wasm_exports \<Rightarrow> nat \<Rightarrow> nat \<Rightarrow> 'w
     \<Rightarrow> (string outcome \<times> 'w) option" where
  "receiveString lib x bsize len w =
     (case receiveLoop x bsize len (replicate len 0) 0 w of
        None \<Rightarrow> None
      | Some (Threw e, w1) \<Rightarrow> Some (Threw e, w1)
      | Some (Returned buffer, w1) \<Rightarrow> Some (Returned (decode lib buffer), w1))"

definition configNotSetMessage :: string where
  "configNotSetMessage = ''You must call setConfig before calling this function.''"

text \<open>\<^verbatim>\<open>createFromInstance\<close>, up to the formatter object it returns.\<close>

definition createFromInstance ::
  "('g, 'v, 'j) js_library \<Rightarrow> 'w wasm_exports \<Rightarrow> 'w \<Rightarrow> 'w formatter outcome" where
  "createFromInstance lib x w =
     (case get_plugin_schema_version x w of (pluginSchemaVersion, w1) \<Rightarrow>
        if pluginSchemaVersion \<noteq> 1
        then Threw (Error (''Not compatible plugin. Expected schema '' @ numberToString lib 1
                           @ '', but plugin had '' @ numberToString lib pluginSchemaVersion
                           @ ''.''))
        else (case get_wasm_memory_buffer_size x w1 of (bsize, w2) \<Rightarrow>
                Returned \<lparr>instance_state = w2, bufferSize = bsize, configSet = False\<rparr>))"

fun getPluginConfigWithStringProps ::
  "('g, 'v, 'j) js_library \<Rightarrow> (string \<times> 'v) list \<Rightarrow> (string \<times> string) list outcome" where
  "getPluginConfigWithStringProps lib [] = Returned []"
| "getPluginConfigWithStringProps lib ((key, v) # pluginConfig) =
     (case toString lib v of
        None \<Rightarrow> Threw TypeError
      | Some s \<Rightarrow>
          (case getPluginConfigWithStringProps lib pluginConfig of
             Threw e \<Rightarrow> Threw e
           | Returned newPluginConfig \<Rightarrow> Returned ((key, s) # newPluginConfig)))"

text \<open>
  The methods of the formatter object. Each returns what the method returned or threw,
  together with the formatter's variables afterwards, or \<open>None\<close> when it does not return.
  The value \<^verbatim>\<open>undefined\<close>, which \<^verbatim>\<open>formatText\<close> returns for a response code other than 0,
  1 and 2, is \<open>Returned None\<close>.
\<close>

definition setConfig ::
  "('g, 'v, 'j) js_library \<Rightarrow> 'w wasm_exports \<Rightarrow> 'w formatter \<Rightarrow> 'g \<Rightarrow> (string \<times> 'v) list
     \<Rightarrow> unit outcome \<times> 'w formatter" where
  "setConfig lib x f globalConfig pluginConfig =
     (case sendString lib x (bufferSize f) (stringify lib globalConfig) (instance_state f) of
        (Threw e, w1) \<Rightarrow> (Threw e, f\<lparr>instance_state := w1\<rparr>)
      | (Returned _, w1) \<Rightarrow>
          (case getPluginConfigWithStringProps lib pluginConfig of
             Threw e \<Rightarrow> (Threw e, f\<lparr>instance_state := set_global_config x w1\<rparr>)
           | Returned newPluginConfig \<Rightarrow>
               (case sendString lib x (bufferSize f) (stringifyProps lib newPluginConfig)
                       (set_global_config x w1) of
                  (Threw e, w2) \<Rightarrow> (Threw e, f\<lparr>instance_state := w2\<rparr>)
                | (Returned _, w2) \<Rightarrow>
                    (Returned (),
                     f\<lparr>instance_state := set_plugin_config x w2, configSet := True\<rparr>))))"

definition throwIfConfigNotSet :: "'w formatter \<Rightarrow> unit outcome" where
  "throwIfConfigNotSet f =
     (if \<not> configSet f then Threw (Error configNotSetMessage) else Returned ())"

definition getConfigDiagnostics ::
  "('g, 'v, 'j) js_library \<Rightarrow> 'w wasm_exports \<Rightarrow> 'w formatter
     \<Rightarrow> ('j outcome \<times> 'w formatter) option" where
  "getConfigDiagnostics lib x f =
     (case throwIfConfigNotSet f of
        Threw e \<Rightarrow> Some (Threw e, f)
      | Returned _ \<Rightarrow>
          (case get_config_diagnostics x (instance_state f) of (len, w1) \<Rightarrow>
             (case receiveString lib x (bufferSize f) len w1 of
                None \<Rightarrow> None
              | Some (Threw e, w2) \<Rightarrow> Some (Threw e, f\<lparr>instance_state := w2\<rparr>)
              | Some (Returned s, w2) \<Rightarrow> Some (jsonParse lib s, f\<lparr>instance_state := w2\<rparr>))))"

definition getResolvedConfig ::
  "('g, 'v, 'j) js_library \<Rightarrow> 'w wasm_exports \<Rightarrow> 'w formatter
     \<Rightarrow> (string outcome \<times> 'w formatter) option" where
  "getResolvedConfig lib x f =
     (case throwIfConfigNotSet f of
        Threw e \<Rightarrow> Some (Threw e, f)
      | Returned _ \<Rightarrow>
          (case get_resolved_config x (instance_state f) of (len, w1) \<Rightarrow>
             (case receiveString lib x (bufferSize f) len w1 of
                None \<Rightarrow> None
              | Some (r, w2) \<Rightarrow> Some (r, f\<lparr>instance_state := w2\<rparr>))))"

definition getPluginInfo ::
  "('g, 'v, 'j) js_library \<Rightarrow> 'w wasm_exports \<Rightarrow> 'w formatter
     \<Rightarrow> ('j outcome \<times> 'w formatter) option" where
  "getPluginInfo lib x f =
     (case get_plugin_info x (instance_state f) of (len, w1) \<Rightarrow>
        (case receiveString lib x (bufferSize f) len w1 of
           None \<Rightarrow> None
         | Some (Threw e, w2) \<Rightarrow> Some (Threw e, f\<lparr>instance_state := w2\<rparr>)
         | Some (Returned s, w2) \<Rightarrow> Some (jsonParse lib s, f\<lparr>instance_state := w2\<rparr>)))"

definition formatText ::
  "('g, 'v, 'j) js_library \<Rightarrow> 'w wasm_exports \<Rightarrow> 'w formatter \<Rightarrow> string \<Rightarrow> string
     \<Rightarrow> (string option outcome \<times> 'w formatter) option" where
  "formatText lib x f filePath text =
     (case throwIfConfigNotSet f of
        Threw e \<Rightarrow> Some (Threw e, f)
      | Returned _ \<Rightarrow>
          (case sendString lib x (bufferSize f) filePath (instance_state f) of
             (Threw e, w1) \<Rightarrow> Some (Threw e, f\<lparr>instance_state := w1\<rparr>)
           | (Returned _, w1) \<Rightarrow>
               (case sendString lib x (bufferSize f) text (set_file_path x w1) of
                  (Threw e, w2) \<Rightarrow> Some (Threw e, f\<lparr>instance_state := w2\<rparr>)
                | (Returned _, w2) \<Rightarrow>
                    (case format x w2 of (responseCode, w3) \<Rightarrow>
                       if responseCode = 0 then
                         Some (Returned (Some text), f\<lparr>instance_state := w3\<rparr>)
                       else if responseCode = 1 then
                         (case get_formatted_text x w3 of (len, w4) \<Rightarrow>
                            (case receiveString lib x (bufferSize f) len w4 of
                               None \<Rightarrow> None
                             | Some (Threw e, w5) \<Rightarrow>
                                 Some (Threw e, f\<lparr>instance_state := w5\<rparr>)
                             | Some (Returned s, w5) \<Rightarrow>
                                 Some (Returned (Some s), f\<lparr>instance_state := w5\<rparr>)))
                       else if responseCode = 2 then
                         (case get_error_text x w3 of (len, w4) \<Rightarrow>
                            (case receiveString lib x (bufferSize f) len w4 of
                               None \<Rightarrow> None
                             | Some (Threw e, w5) \<Rightarrow>
                                 Some (Threw e, f\<lparr>instance_state := w5\<rparr>)
                             | Some (Returned s, w5) \<Rightarrow>
                                 Some (Threw (Error s), f\<lparr>instance_state := w5\<rparr>)))
                       else Some (Returned None, f\<lparr>instance_state := w3\<rparr>)))))"


section \<open>The resolution engine\<close>

text \<open>
  Modelled from the spec: the resolution engine, which turns a document into text. It is code
  of the repository that is not among the sources read here; this section follows sections 3
  and 4.4 of the specification. The configuration supplies the maximum line width, the indent
  width, the choice between tabs and spaces, and the newline string.
\<close>

record layout_config =
  lineWidth :: nat
  indentWidth :: nat
  useTabs :: bool
  newLineText :: string

text \<open>
  Modelled from the spec: the state of the engine. It holds the text committed so far, the
  cursor (line, column, active indent depth, active hanging-indent depth), the write-once
  table of resolved markers, the outcomes of the conditionals resolved so far and the
  diagnostics recorded. The document gives a conditional no identity but its name, so an
  outcome is kept under the name, the latest first. \<open>lineStartIndent\<close> is the indent level with
  which the current line began, \<open>expectingNewLine\<close> is set by the signal that follows a line
  comment, and \<open>forcedNewLines\<close> counts the hard newlines written, by which a flat trial sees
  whether it met one.
\<close>

record engine_state =
  written :: string
  cursorLine :: nat
  cursorColumn :: nat
  indentDepth :: nat
  hangingDepth :: nat
  lineStartIndent :: nat
  expectingNewLine :: bool
  forcedNewLines :: nat
  infoTable :: "(nat \<times> writer_info) list"
  conditionTable :: "(string \<times> bool) list"
  diagnostics :: "string list"

text \<open>Modelled from the spec: a group is rendered flat or in expanded form; a failure of the
  engine is a layout error that carries a message.\<close>

datatype layout_mode = Flat | Expanded

datatype layout_error = LayoutError string

definition initialEngine :: engine_state where
  "initialEngine =
     \<lparr>written = [], cursorLine = 0, cursorColumn = 0, indentDepth = 0, hangingDepth = 0,
      lineStartIndent = 0, expectingNewLine = False, forcedNewLines = 0,
      infoTable = [], conditionTable = [], diagnostics = []\<rparr>"

text \<open>
  Modelled from the spec: the indent level of a line that begins now. In a flat rendering a
  hanging-indent scope contributes no indentation; in expanded form every active
  hanging-indent scope materializes one indent level.
\<close>

definition indentLevel :: "layout_mode \<Rightarrow> engine_state \<Rightarrow> nat" where
  "indentLevel mode e =
     (case mode of Flat \<Rightarrow> indentDepth e | Expanded \<Rightarrow> indentDepth e + hangingDepth e)"

text \<open>
  Modelled from the spec: the snapshot of the cursor that a marker is resolved to and that a
  predicate is given, and the resolution context built from the table as it stands. The
  predicates of the translator read the line, the column and the indent level of the start of
  the line.
\<close>

definition snapshot :: "layout_mode \<Rightarrow> engine_state \<Rightarrow> writer_info" where
  "snapshot mode e =
     \<lparr>lineNumber = cursorLine e, columnNumber = cursorColumn e,
      lineStartIndentLevel =
        (if cursorColumn e = 0 then indentLevel mode e else lineStartIndent e)\<rparr>"

definition resolutionContext :: "layout_mode \<Rightarrow> engine_state \<Rightarrow> resolve_condition_context" where
  "resolutionContext mode e =
     \<lparr>getResolvedInfo = (\<lambda>i. map_of (infoTable e) (info_id i)),
      writerInfo = snapshot mode e\<rparr>"

text \<open>Modelled from the spec: the indentation of a line, in tabs or in spaces of the indent
  width, and the movement of the cursor over a text, which may hold newlines of its own.\<close>

definition indentation :: "layout_config \<Rightarrow> nat \<Rightarrow> string" where
  "indentation cfg levels =
     (if useTabs cfg then replicate levels (CHR 0x09)
      else replicate (levels * indentWidth cfg) (CHR '' ''))"

fun advance :: "string \<Rightarrow> nat \<times> nat \<Rightarrow> nat \<times> nat" where
  "advance [] (l, c) = (l, c)"
| "advance (ch # s) (l, c) =
     (if ch = CHR 0x0A then advance s (Suc l, 0) else advance s (l, Suc c))"

text \<open>
  Modelled from the spec: a hard newline is the text item that holds a newline string; the
  engine writes the newline string of its configuration for it. A line break made of a
  \<open>SpaceOrNewLine\<close> signal is written the same way but is not a forced one.
\<close>

definition isNewLine :: "string \<Rightarrow> bool" where
  "isNewLine s = (s = [CHR 0x0A] \<or> s = [CHR 0x0D, CHR 0x0A])"

definition emitNewLine :: "layout_config \<Rightarrow> bool \<Rightarrow> engine_state \<Rightarrow> engine_state" where
  "emitNewLine cfg forced e =
     e\<lparr>written := written e @ newLineText cfg,
       cursorLine := Suc (cursorLine e),
       cursorColumn := 0,
       expectingNewLine := False,
       forcedNewLines := (if forced then Suc (forcedNewLines e) else forcedNewLines e)\<rparr>"

text \<open>
  Modelled from the spec: a text is emitted verbatim. After the signal that follows a line
  comment no content may stand on the same line, so a newline is forced first; a text that
  begins a line is preceded by the indentation of the line.
\<close>

definition emitText ::
  "layout_config \<Rightarrow> layout_mode \<Rightarrow> string \<Rightarrow> engine_state \<Rightarrow> engine_state" where
  "emitText cfg mode s e =
     (if s = [] then e
      else
        let e1 = (if expectingNewLine e then emitNewLine cfg True e else e);
            atLineStart = (cursorColumn e1 = 0);
            lead = (if atLineStart then indentation cfg (indentLevel mode e1) else []);
            position = advance (lead @ s) (cursorLine e1, cursorColumn e1)
        in e1\<lparr>written := written e1 @ lead @ s,
               cursorLine := fst position,
               cursorColumn := snd position,
               lineStartIndent :=
                 (if atLineStart then indentLevel mode e1 else lineStartIndent e1)\<rparr>)"

text \<open>Modelled from the spec: a marker is resolved, once, to the snapshot of the cursor that
  passes it; resolving it again changes nothing.\<close>

definition resolveInfo :: "layout_mode \<Rightarrow> info \<Rightarrow> engine_state \<Rightarrow> engine_state" where
  "resolveInfo mode i e =
     (case map_of (infoTable e) (info_id i) of
        Some _ \<Rightarrow> e
      | None \<Rightarrow> e\<lparr>infoTable := infoTable e @ [(info_id i, snapshot mode e)]\<rparr>)"

text \<open>
  Modelled from the spec: the predicate of a conditional is called with the resolution context
  when the cursor reaches the conditional and answers true, false or unresolved; a conditional
  that references another one has the outcome that one was resolved to, and is unresolved
  when there is none.
\<close>

definition conditionOutcome ::
  "layout_mode \<Rightarrow> resolve_condition \<Rightarrow> engine_state \<Rightarrow> bool option" where
  "conditionOutcome mode r e =
     (case r of
        ResolveFn predicate \<Rightarrow> predicate (resolutionContext mode e)
      | ConditionRef c \<Rightarrow> map_of (conditionTable e) (cond_name c))"

text \<open>
  Modelled from the spec: the resolution of an item and of a sequence of items. A text and the
  text of an unknown node are emitted; a signal moves an indent scope (closing a scope that is
  not open is a layout error), breaks the line or becomes a space, or asks for a newline; a
  marker is resolved; a conditional renders the branch of its outcome, and its false branch
  with a diagnostic when it is unresolved. A group is first tried flat, with every
  \<open>SpaceOrNewLine\<close> a single space: when the trial meets no forced newline and its ending
  column, relative to the starting column of the group, stays within the line width, the flat
  rendering is committed; otherwise the group is committed in expanded form, every
  \<open>SpaceOrNewLine\<close> of its own a line break and its nested groups resolved by the same rule.
\<close>

function (sequential)
    resolveItem ::
    "layout_config \<Rightarrow> layout_mode \<Rightarrow> print_item \<Rightarrow> engine_state
       \<Rightarrow> layout_error + engine_state"
and resolveItems ::
    "layout_config \<Rightarrow> layout_mode \<Rightarrow> print_item list \<Rightarrow> engine_state
       \<Rightarrow> layout_error + engine_state"
where
  "resolveItem cfg mode (Str s) e =
     Inr (if isNewLine s then emitNewLine cfg True e else emitText cfg mode s e)"
| "resolveItem cfg mode (Unknown s) e = Inr (emitText cfg mode s e)"
| "resolveItem cfg mode (Beh b) e =
     (case b of
        ExpectNewLine \<Rightarrow> Inr (e\<lparr>expectingNewLine := True\<rparr>)
      | SpaceOrNewLine \<Rightarrow>
          Inr (case mode of
                 Flat \<Rightarrow> emitText cfg mode '' '' e
               | Expanded \<Rightarrow> emitNewLine cfg False e)
      | StartIndent \<Rightarrow> Inr (e\<lparr>indentDepth := Suc (indentDepth e)\<rparr>)
      | FinishIndent \<Rightarrow>
          if indentDepth e = 0 then Inl (LayoutError ''unbalanced indent scope'')
          else Inr (e\<lparr>indentDepth := indentDepth e - 1\<rparr>)
      | StartHangingIndent \<Rightarrow> Inr (e\<lparr>hangingDepth := Suc (hangingDepth e)\<rparr>)
      | FinishHangingIndent \<Rightarrow>
          if hangingDepth e = 0 then Inl (LayoutError ''unbalanced hanging-indent scope'')
          else Inr (e\<lparr>hangingDepth := hangingDepth e - 1\<rparr>))"
| "resolveItem cfg mode (InfoItem i) e = Inr (resolveInfo mode i e)"
| "resolveItem cfg mode (Cond (Condition name r whenTrue whenFalse)) e =
     (case conditionOutcome mode r e of
        None \<Rightarrow>
          (case whenFalse of
             None \<Rightarrow> Inr (e\<lparr>diagnostics := diagnostics e @ [name]\<rparr>)
           | Some items \<Rightarrow>
               resolveItems cfg mode items (e\<lparr>diagnostics := diagnostics e @ [name]\<rparr>))
      | Some outcome \<Rightarrow>
          (case (if outcome then whenTrue else whenFalse) of
             None \<Rightarrow> Inr (e\<lparr>conditionTable := (name, outcome) # conditionTable e\<rparr>)
           | Some items \<Rightarrow>
               resolveItems cfg mode items
                 (e\<lparr>conditionTable := (name, outcome) # conditionTable e\<rparr>)))"
| "resolveItem cfg mode (Group items) e =
     (case mode of
        Flat \<Rightarrow> resolveItems cfg Flat items e
      | Expanded \<Rightarrow>
          (case resolveItems cfg Flat items e of
             Inr trial \<Rightarrow>
               if forcedNewLines trial = forcedNewLines e
                  \<and> cursorColumn trial - cursorColumn e \<le> lineWidth cfg
               then Inr trial
               else resolveItems cfg Expanded items e
           | Inl _ \<Rightarrow> resolveItems cfg Expanded items e))"
| "resolveItems cfg mode [] e = Inr e"
| "resolveItems cfg mode (item # items) e =
     (case resolveItem cfg mode item e of
        Inl err \<Rightarrow> Inl err
      | Inr e1 \<Rightarrow> resolveItems cfg mode items e1)"
  by pat_completeness auto

termination
  by (relation "measure (\<lambda>x. case x of
          Inl (cfg, mode, item, e) \<Rightarrow> 2 * size item
        | Inr (cfg, mode, items, e) \<Rightarrow> 2 * size_list size items + 1)")
     (auto split: if_splits)

text \<open>
  Modelled from the spec: the entry point of the engine. The document of a file is a root
  group followed by the trailing-newline conditional, resolved in this order from the empty
  state; the result is the text written, or a layout error when an indent scope is left open.
\<close>

definition resolveDocument :: "layout_config \<Rightarrow> print_item \<Rightarrow> layout_error + string" where
  "resolveDocument cfg document =
     (case resolveItems cfg Expanded
             (case document of Group items \<Rightarrow> items | _ \<Rightarrow> [document]) initialEngine of
        Inl err \<Rightarrow> Inl err
      | Inr e \<Rightarrow>
          if indentDepth e = 0 \<and> hangingDepth e = 0 then Inr (written e)
          else Inl (LayoutError ''indent scope left open''))"


section \<open>Reading a document\<close>

text \<open>
  \<open>conditionPredicate\<close> calls the predicate function of a condition item with a resolution
  context; it answers \<open>None\<close> for an item that is not a condition with a predicate function,
  and when the predicate answers \<^verbatim>\<open>undefined\<close>.
\<close>

definition conditionPredicate :: "print_item \<Rightarrow> resolve_condition_context \<Rightarrow> bool option" where
  "conditionPredicate item conditionContext =
     (case item of
        Cond (Condition _ (ResolveFn f) _ _) \<Rightarrow> f conditionContext
      | _ \<Rightarrow> None)"

fun isGroup :: "print_item \<Rightarrow> bool" where
  "isGroup (Group _) = True"
| "isGroup _ = False"



section \<open>The layout of a statement sequence\<close>

text \<open>
  The specification gives a second hard newline to a statement that is a construct carrying a
  body block. \<open>carriesBodyBlock\<close> follows these words: a block, a function declaration whose
  body is a block, an if statement with a block for a branch, an export of such a
  declaration; of a kind without a producer it is taken to hold when the node has a body.
\<close>

fun carriesBodyBlock :: "node \<Rightarrow> bool" where
  "carriesBodyBlock (BlockStatement _ _) = True"
| "carriesBodyBlock (FunctionDeclaration _ _ _ _ _ _ _ fbody) = isBlockStatement fbody"
| "carriesBodyBlock (IfStatement _ _ consequent alternate) =
     (isBlockStatement consequent
      \<or> (case alternate of None \<Rightarrow> False | Some a \<Rightarrow> isBlockStatement a))"
| "carriesBodyBlock (ExportNamedDeclaration _ declaration) =
     (case declaration of None \<Rightarrow> False | Some d \<Rightarrow> carriesBodyBlock d)"
| "carriesBodyBlock (OtherNode _ _ hb) = hb"
| "carriesBodyBlock _ = False"

text \<open>
  The rule of \<^verbatim>\<open>parseStatements\<close>: between two neighbouring statements stands one hard
  newline, and a second one when \<^verbatim>\<open>hasBody\<close> holds of either. \<open>layoutStatements\<close>
  interleaves the translated statements \<open>gs\<close> with these separators.
\<close>

definition separatorBetween :: "string \<Rightarrow> node \<Rightarrow> node \<Rightarrow> print_item list" where
  "separatorBetween nl s1 s2 =
     (if hasBody s1 \<or> hasBody s2 then [Str nl, Str nl] else [Str nl])"

fun layoutStatements :: "string \<Rightarrow> node list \<Rightarrow> print_item list \<Rightarrow> print_item list" where
  "layoutStatements nl (s1 # s2 # ss) (g # gs) =
     g # separatorBetween nl s1 s2 @ layoutStatements nl (s2 # ss) gs"
| "layoutStatements nl ss gs = gs"

section \<open>A state only grows\<close>


section \<open>Example inputs\<close>

text \<open>Concrete contexts, nodes and comments on which the theorems below are evaluated.\<close>

definition exampleContext :: "string \<Rightarrow> translation_context" where
  "exampleContext text =
     \<lparr>fileText = text,
      options = \<lparr>opt_newLineKind = LF, importDeclaration_semiColon = True,
                 typeAlias_semiColon = True, expressionStatement_semiColon = True,
                 singleQuotes = False\<rparr>,
      newLineKind = [CHR 0x0A],
      removeStringIndentation = (\<lambda>t _ _. t)\<rparr>"

text \<open>A configuration of the engine: lines of 80 columns, indents of four spaces.\<close>

definition exampleConfig :: layout_config where
  "exampleConfig = \<lparr>lineWidth = 80, indentWidth = 4, useTabs = False, newLineText = [CHR 0x0A]\<rparr>"

text \<open>A node base without comments: offsets \<open>s\<close> to \<open>e\<close>, lines \<open>l1\<close> to \<open>l2\<close>.\<close>

definition nodeBase :: "nat \<Rightarrow> nat \<Rightarrow> int \<Rightarrow> int \<Rightarrow> node_base" where
  "nodeBase s e l1 l2 =
     \<lparr>n_start = s, n_end = e, loc_start_line = l1, loc_end_line = l2,
      leadingComments = None, trailingComments = None, innerComments = None\<rparr>"

definition blockComment :: "nat \<Rightarrow> string \<Rightarrow> int \<Rightarrow> int \<Rightarrow> comment" where
  "blockComment r v l1 l2 =
     \<lparr>c_ref = r, c_type = CommentBlock, c_value = v,
      c_loc_start_line = l1, c_loc_end_line = l2\<rparr>"

definition lineComment :: "nat \<Rightarrow> string \<Rightarrow> int \<Rightarrow> comment" where
  "lineComment r v l =
     \<lparr>c_ref = r, c_type = CommentLine, c_value = v,
      c_loc_start_line = l, c_loc_end_line = l\<rparr>"



definition exampleIfBlock :: node where
  "exampleIfBlock =
     IfStatement (nodeBase 0 13 1 1)
       (Identifier (nodeBase 4 5 1 1) ''a'')
       (BlockStatement (nodeBase 7 13 1 1)
          [ExpressionStatement (nodeBase 9 11 1 1) (Identifier (nodeBase 9 10 1 1) ''b'')])
       None"

definition statementC :: node where
  "statementC =
     ExpressionStatement (nodeBase 14 16 1 1) (Identifier (nodeBase 14 15 1 1) ''c'')"


text \<open>Four statements; the third is a block and so carries a body.\<close>

definition exampleStatements :: "node list" where
  "exampleStatements =
     [ExpressionStatement (nodeBase 0 2 1 1) (Identifier (nodeBase 0 1 1 1) ''a''),
      ExpressionStatement (nodeBase 3 5 5 5) (Identifier (nodeBase 3 4 5 5) ''b''),
      BlockStatement (nodeBase 6 8 6 6) [],
      ExpressionStatement (nodeBase 9 11 7 7) (Identifier (nodeBase 9 10 7 7) ''c'')]"

text \<open>A node that lists no comment.\<close>

definition noComments :: "node_base \<Rightarrow> bool" where
  "noComments b =
     ((leadingComments b = None \<or> leadingComments b = Some [])
      \<and> (trailingComments b = None \<or> trailingComments b = Some [])
      \<and> (innerComments b = None \<or> innerComments b = Some []))"





text \<open>
  A plugin instance with four bytes of memory that answers \<^verbatim>\<open>format\<close> with a fixed
  response code and holds three bytes of output (the bytes of the text \<^verbatim>\<open>aba\<close>), which
  it hands out as formatted text and as error text alike:
  \<^verbatim>\<open>set_buffer_with_shared_bytes\<close> copies the requested bytes of the output to the start
  of the memory, and \<^verbatim>\<open>add_to_shared_bytes_from_buffer\<close> appends the start of the memory
  to the bytes received. The library encodes and decodes the letters \<^verbatim>\<open>a\<close> and
  \<^verbatim>\<open>b\<close> as the bytes 1 and 2; any other byte decodes to the character 0.
\<close>

record toy_instance =
  toy_memory :: "byte list"
  toy_shared :: "byte list"
  toy_code :: int
  toy_output :: "byte list"

definition toyExports :: "toy_instance wasm_exports" where
  "toyExports =
     \<lparr>set_file_path = (\<lambda>w. w),
      get_formatted_text = (\<lambda>w. (length (toy_output w), w)),
      format = (\<lambda>w. (toy_code w, w)),
      get_error_text = (\<lambda>w. (length (toy_output w), w)),
      get_plugin_info = (\<lambda>w. (length (toy_output w), w)),
      get_resolved_config = (\<lambda>w. (length (toy_output w), w)),
      get_config_diagnostics = (\<lambda>w. (length (toy_output w), w)),
      set_global_config = (\<lambda>w. w),
      set_plugin_config = (\<lambda>w. w),
      get_plugin_schema_version = (\<lambda>w. (1, w)),
      get_wasm_memory_buffer = (\<lambda>w. (0, w)),
      get_wasm_memory_buffer_size = (\<lambda>w. (length (toy_memory w), w)),
      add_to_shared_bytes_from_buffer =
        (\<lambda>n w. w\<lparr>toy_shared := toy_shared w @ take n (toy_memory w)\<rparr>),
      set_buffer_with_shared_bytes =
        (\<lambda>i n w. w\<lparr>toy_memory := writeAt 0 (take n (drop i (toy_output w))) (toy_memory w)\<rparr>),
      clear_shared_bytes = (\<lambda>n w. w\<lparr>toy_shared := []\<rparr>),
      memory = toy_memory,
      memory_store = (\<lambda>m w. w\<lparr>toy_memory := m\<rparr>)\<rparr>"

definition toyLibrary :: "(unit, string, string) js_library" where
  "toyLibrary =
     \<lparr>encode = map (\<lambda>c. if c = CHR ''a'' then 1 else 2),
      decode = map (\<lambda>b. if b = 1 then CHR ''a'' else if b = 2 then CHR ''b'' else CHR 0x00),
      stringify = (\<lambda>_. ''ab''),
      stringifyProps = (\<lambda>_. ''ba''),
      toString = Some,
      numberToString = (\<lambda>_. ''1''),
      jsonParse = Returned\<rparr>"

definition toyInstance :: "byte list \<Rightarrow> byte list \<Rightarrow> int \<Rightarrow> toy_instance" where
  "toyInstance mem shared code =
     \<lparr>toy_memory = mem, toy_shared = shared, toy_code = code, toy_output = [1, 2, 1]\<rparr>"

definition toyFormatter :: "int \<Rightarrow> bool \<Rightarrow> toy_instance formatter" where
  "toyFormatter code isSet =
     \<lparr>instance_state = toyInstance [0, 0, 0, 0] [] code, bufferSize = 4, configSet = isSet\<rparr>"

text \<open>The same instance with two bytes of memory and the response code 1, in a formatter
  whose configuration has been set: its output of three bytes does not fit the buffer.\<close>

definition smallInstance :: "byte list \<Rightarrow> byte list \<Rightarrow> toy_instance" where
  "smallInstance mem shared =
     \<lparr>toy_memory = mem, toy_shared = shared, toy_code = 1, toy_output = [1, 2, 1]\<rparr>"

definition smallFormatter :: "toy_instance formatter" where
  "smallFormatter =
     \<lparr>instance_state = smallInstance [0, 0] [], bufferSize = 2, configSet = True\<rparr>"


section \<open>What the comment attacher leaves alone\<close>

text \<open>Handling comments neither logs nor creates infos, and does not read the log.\<close>

lemma parseComment_logged:
  "parseComment c (st\<lparr>logged := x\<rparr>) =
     (case parseComment c st of (items, st') \<Rightarrow> (items, st'\<lparr>logged := x\<rparr>))"
  by (simp add: parseComment_def Let_def split: comment_kind.splits)

lemma parseCommentCollection_logged:
  "parseCommentCollection ctx cs l (st\<lparr>logged := x\<rparr>) =
     (case parseCommentCollection ctx cs l st of (items, st') \<Rightarrow> (items, st'\<lparr>logged := x\<rparr>))"
proof (induction cs arbitrary: l st)
  case Nil
  show ?case by simp
next
  case (Cons c cs)
  show ?case
    by (simp add: parseComment_logged Cons.IH Let_def split: prod.splits)
qed

lemma parseComment_frame:
  "parseComment c st = (items, st') \<Longrightarrow> logged st' = logged st \<and> nextInfo st' = nextInfo st"
  by (auto simp: parseComment_def Let_def split: comment_kind.splits if_splits)

lemma parseCommentCollection_frame:
  "parseCommentCollection ctx cs l st = (items, st')
     \<Longrightarrow> logged st' = logged st \<and> nextInfo st' = nextInfo st"
proof (induction cs arbitrary: l st items st')
  case Nil
  then show ?case by simp
next
  case (Cons c cs)
  show ?case
  proof (cases "c \<in> handledComments st")
    case True
    with Cons show ?thesis by simp
  next
    case False
    obtain i1 s1 where p: "parseComment c st = (i1, s1)" by (cases "parseComment c st")
    obtain i2 s2 where q: "parseCommentCollection ctx cs (Some (LastComment c)) s1 = (i2, s2)"
      by (cases "parseCommentCollection ctx cs (Some (LastComment c)) s1")
    from Cons.prems False p q have "st' = s2" by (simp add: Let_def)
    with Cons.IH [OF q] parseComment_frame [OF p] show ?thesis by simp
  qed
qed

lemma parseLeadingComments_frame:
  "parseLeadingComments ctx n st = (items, st')
     \<Longrightarrow> logged st' = logged st \<and> nextInfo st' = nextInfo st"
  by (auto simp: parseLeadingComments_def split: option.splits
           dest: parseCommentCollection_frame)

lemma parseTrailingComments_logged:
  "parseTrailingComments ctx n (st\<lparr>logged := x\<rparr>) =
     (case parseTrailingComments ctx n st of (items, st') \<Rightarrow> (items, st'\<lparr>logged := x\<rparr>))"
  by (simp add: parseTrailingComments_def parseCommentCollection_logged split: option.splits)

section \<open>The state only grows during translation\<close>















lemma parseNamedImports_Nil [simp]: "parseNamedImports ctx b [] st = ([], st)"
  by simp




section \<open>Groups and statement sequences\<close>

lemma parseNode_isGroup: "isGroup (fst (parseNode ctx x st))"
  by (cases x) (auto split: prod.splits)

lemma parseStatementsFrom_states:
  "\<exists>states. length states = length statements
     \<and> fst (parseStatementsFrom ctx previous statements st) =
         (case (previous, statements) of
            (Some p, s # _) \<Rightarrow> separatorBetween (newLineKind ctx) p s
          | _ \<Rightarrow> [])
         @ layoutStatements (newLineKind ctx) statements
             (map2 (\<lambda>s t. fst (parseNode ctx (Some s) t)) statements states)"
proof (induction statements arbitrary: previous st)
  case Nil
  show ?case by (simp split: option.splits)
next
  case (Cons s ss)
  obtain g st1 where g: "parseNode ctx (Some s) st = (g, st1)"
    by (cases "parseNode ctx (Some s) st")
  from Cons.IH [of "Some s" st1] obtain states where
    gs: "length states = length ss"
      "fst (parseStatementsFrom ctx (Some s) ss st1) =
         (case (Some s, ss) of
            (Some p, s' # _) \<Rightarrow> separatorBetween (newLineKind ctx) p s'
          | _ \<Rightarrow> [])
         @ layoutStatements (newLineKind ctx) ss
             (map2 (\<lambda>s t. fst (parseNode ctx (Some s) t)) ss states)"
    by blast
  have "length (st # states) = length (s # ss)" using gs by simp
  moreover have "fst (parseStatementsFrom ctx previous (s # ss) st) =
         (case (previous, s # ss) of
            (Some p, s' # _) \<Rightarrow> separatorBetween (newLineKind ctx) p s'
          | _ \<Rightarrow> [])
         @ layoutStatements (newLineKind ctx) (s # ss)
             (map2 (\<lambda>s t. fst (parseNode ctx (Some s) t)) (s # ss) (st # states))"
    using g gs
    by (cases ss; cases states; cases previous)
       (auto simp: separatorBetween_def Let_def split: prod.splits
             simp del: parseNode.simps(2))
  ultimately show ?case by blast
qed

section \<open>The items of an if statement\<close>




section \<open>Handled comments along the emission paths\<close>



section \<open>The engine on an empty document and on an empty body\<close>

text \<open>
  The document of an empty file is resolved to the empty text: the empty group writes
  nothing, so the condition at the end of the file finds the cursor at line 0 and column 0.
\<close>

lemma resolveDocument_empty:
  "resolveDocument cfg (Group [Group [], Cond (endOfFileNewLine ctx)]) = Inr []"
  by (simp add: resolveDocument_def endOfFileNewLine_def initialEngine_def conditionOutcome_def
        resolutionContext_def snapshot_def)

text \<open>
  The infos in front of and behind the statements of an empty block without comments are
  separated by the two signals of the indent scope only. An engine that passes the four items
  writes nothing and resolves both infos to the same snapshot, so the predicate of the
  \<^verbatim>\<open>closeBraceNewLine\<close> condition is false: an empty body gets no newline of its own.
\<close>

lemma empty_body_no_newline:
  assumes "map_of (infoTable e) (info_id startStatementsInfo) = None"
    and "map_of (infoTable e) (info_id endStatementsInfo) = None"
    and "info_id startStatementsInfo \<noteq> info_id endStatementsInfo"
  shows "\<exists>e'. resolveItems cfg mode
                 [InfoItem startStatementsInfo, Beh StartIndent, Beh FinishIndent,
                  InfoItem endStatementsInfo] e = Inr e'
              \<and> written e' = written e
              \<and> getResolvedInfo (resolutionContext mode e') startStatementsInfo
                   = Some (snapshot mode e)
              \<and> getResolvedInfo (resolutionContext mode e') endStatementsInfo
                   = Some (snapshot mode e)
              \<and> conditionPredicate
                   (Cond (closeBraceNewLineCondition ctx startStatementsInfo endStatementsInfo))
                   (resolutionContext mode e') = Some False"
  using assms
  by (cases mode)
     (auto simp: resolveInfo_def resolutionContext_def snapshot_def indentLevel_def
        conditionPredicate_def closeBraceNewLineCondition_def areInfoEqual_def
        map_add_def split: option.splits)


section \<open>Receiving a string returns\<close>

text \<open>With a buffer size above 0 every pass of the loop of \<^verbatim>\<open>receiveString\<close> reads at
  least one byte, so the loop ends: it returns the buffer or throws.\<close>

lemma receiveLoop_returns:
  "0 < bsize \<Longrightarrow> \<exists>r. receiveLoop x bsize len buffer index w = Some r"
proof (induction "len - index" arbitrary: buffer index w rule: less_induct)
  case less
  show ?case
  proof (cases "index < len")
    case False
    then show ?thesis by (simp add: receiveLoop.simps [of x bsize len buffer index w])
  next
    case True
    let ?n = "min (len - index) bsize"
    have "len - (index + ?n) < len - index" using True less.prems by auto
    from less.hyps [OF this less.prems] show ?thesis
      using True
      by (simp add: receiveLoop.simps [of x bsize len buffer index w] Let_def)
  qed
qed

lemma receiveString_returns:
  "0 < bsize \<Longrightarrow> \<exists>r. receiveString lib x bsize len w = Some r"
  using receiveLoop_returns [of bsize x len "replicate len 0" 0 w]
  by (auto simp: receiveString_def split: prod.splits outcome.splits)


section \<open>Absent children\<close>

text \<open>
  Claim C10. For a \<^verbatim>\<open>null\<close> node \<^verbatim>\<open>parseNode\<close> returns a group with no items and
  leaves the translation state as it was: nothing is logged, no comment is handled and no
  info is created. The function is total, so no other answer (and no failure) is possible.
\<close>

theorem parseNode_null: "parseNode ctx None st = (Group [], st)"
  by simp

section \<open>Unknown node kinds\<close>

text \<open>
  Claim C5. For a node whose kind has no entry in \<^verbatim>\<open>parseObj\<close>, \<^verbatim>\<open>parseNode\<close> returns
  a group (it cannot fail): the node's leading comments, then one \<open>Unknown\<close> item holding
  \<^verbatim>\<open>removeStringIndentation\<close> of the file text between the node's start and end offsets,
  then its trailing comments. The log receives exactly one more message, which names the kind
  and quotes that text. When the offsets are in order and inside the file, the text is the
  slice of the file between them.
\<close>

theorem parseNode_unknown:
  "parseNode ctx (Some (OtherNode b kind hb)) st =
     (case parseLeadingComments ctx (OtherNode b kind hb) st of (leading, st1) \<Rightarrow>
      case parseTrailingComments ctx (OtherNode b kind hb) st1 of (trailing, st2) \<Rightarrow>
        (Group (leading
                @ [Unknown (removeStringIndentation ctx
                     (substring (fileText ctx) (n_start b) (n_end b)) 2 (\<lambda>_. False))]
                @ trailing),
         st2\<lparr>logged := logged st
              @ [''Not implemented node type: '' @ kind @ '' (''
                 @ substring (fileText ctx) (n_start b) (n_end b) @ '')'']\<rparr>))
   \<and> (n_start b \<le> n_end b \<and> n_end b \<le> length (fileText ctx) \<longrightarrow>
        substring (fileText ctx) (n_start b) (n_end b)
          = take (n_end b - n_start b) (drop (n_start b) (fileText ctx)))"
proof
  show "parseNode ctx (Some (OtherNode b kind hb)) st =
     (case parseLeadingComments ctx (OtherNode b kind hb) st of (leading, st1) \<Rightarrow>
      case parseTrailingComments ctx (OtherNode b kind hb) st1 of (trailing, st2) \<Rightarrow>
        (Group (leading
                @ [Unknown (removeStringIndentation ctx
                     (substring (fileText ctx) (n_start b) (n_end b)) 2 (\<lambda>_. False))]
                @ trailing),
         st2\<lparr>logged := logged st
              @ [''Not implemented node type: '' @ kind @ '' (''
                 @ substring (fileText ctx) (n_start b) (n_end b) @ '')'']\<rparr>))"
    by (auto simp: parseUnknownNode_def unknownNodeMessage_def Let_def
          parseTrailingComments_logged
        split: prod.splits dest!: parseLeadingComments_frame)
next
  show "n_start b \<le> n_end b \<and> n_end b \<le> length (fileText ctx) \<longrightarrow>
        substring (fileText ctx) (n_start b) (n_end b)
          = take (n_end b - n_start b) (drop (n_start b) (fileText ctx))"
    by (simp add: substring_def Let_def min_def max_def)
qed

theorem parseNode_unknown_witness:
  "(0::nat) \<le> 9 \<and> 9 \<le> length (fileText (exampleContext ''debugger;''))
   \<and> parseNode (exampleContext ''debugger;'')
        (Some (OtherNode (nodeBase 0 9 1 1) ''DebuggerStatement'' False)) initialState
      = (Group [Unknown ''debugger;''],
         \<lparr>handledComments = {}, nextInfo = 0,
          logged = [''Not implemented node type: DebuggerStatement (debugger;)'']\<rparr>)"
  using parseNode_unknown [of "exampleContext ''debugger;''" "nodeBase 0 9 1 1"
      "''DebuggerStatement''" False initialState]
  by (simp add: exampleContext_def nodeBase_def initialState_def parseLeadingComments_def
        parseTrailingComments_def)

section \<open>Spacing in front of a comment\<close>

text \<open>
  Claim C3 says that a comment on the same source line as the element before it is preceded
  by a single space. For a block comment that follows a node this is not so: nothing is put
  between them. Here the comment \<^verbatim>\<open>/* c */\<close> follows the identifier \<^verbatim>\<open>a\<close> on line 1.
\<close>

theorem comment_same_line_counterexample:
  "c_loc_start_line (blockComment 0 '' c '' 1 1)
     = last_loc_end_line (LastNode (Identifier (nodeBase 0 1 1 1) ''a''))
   \<and> fst (parseCommentCollection (exampleContext ''a /* c */'') [blockComment 0 '' c '' 1 1]
          (Some (LastNode (Identifier (nodeBase 0 1 1 1) ''a''))) initialState)
       = [Str ''/*'', Str '' c '', Str ''*/'']"
  by (simp add: blockComment_def nodeBase_def initialState_def parseComment_def
        parseCommentBlock_def commentSeparator_def Let_def)

text \<open>
  A comment that starts two or more lines below the element before it passes both tests of
  \<^verbatim>\<open>parseCommentCollection\<close>, the second of which is not an \<^verbatim>\<open>else\<close> branch of the
  first, and is preceded by three hard newlines.
\<close>

lemma comment_two_lines_later:
  "fst (parseCommentCollection (exampleContext t) [blockComment 0 '' c '' 3 3]
          (Some (LastNode (Identifier (nodeBase 0 1 1 1) ''a''))) initialState)
       = [Str [CHR 0x0A], Str [CHR 0x0A], Str [CHR 0x0A], Str ''/*'', Str '' c '', Str ''*/'']"
  by (simp add: blockComment_def nodeBase_def initialState_def parseComment_def
        parseCommentBlock_def commentSeparator_def Let_def exampleContext_def)

text \<open>
  Claim C3, amended. A comment that has not been handled and follows an element \<open>l\<close> is
  preceded by exactly one hard newline when it starts on the line after the last line of
  \<open>l\<close>. When it starts on that last line (or above it), it is preceded by a single space
  if it is a line comment or if \<open>l\<close> is a block comment, and by nothing otherwise. (A comment
  that starts further down is not covered.)
\<close>

theorem comment_separator:
  assumes "c \<notin> handledComments st"
  shows "\<exists>sep. parseCommentCollection ctx (c # cs) (Some l) st =
           (case parseComment c st of (items, st1) \<Rightarrow>
            case parseCommentCollection ctx cs (Some (LastComment c)) st1 of (rest, st2) \<Rightarrow>
              (sep @ items @ rest, st2))
         \<and> (c_loc_start_line c = last_loc_end_line l + 1 \<longrightarrow> sep = [Str (newLineKind ctx)])
         \<and> (c_loc_start_line c \<le> last_loc_end_line l \<longrightarrow>
              sep = (if c_type c = CommentLine \<or> last_is_CommentBlock l then [Str '' '']
                     else []))"
  using assms
  by (auto simp: commentSeparator_def Let_def split: prod.splits)

theorem comment_separator_witness:
  "lineComment 0 '' c'' 2 \<notin> handledComments initialState
   \<and> parseCommentCollection (exampleContext ''a // c'') [lineComment 0 '' c'' 2]
        (Some (LastNode (Identifier (nodeBase 0 1 1 1) ''a''))) initialState
     = ([Str [CHR 0x0A], Str ''// c'', Beh ExpectNewLine],
        \<lparr>handledComments = {lineComment 0 '' c'' 2}, nextInfo = 0, logged = []\<rparr>)"
  using comment_separator [of "lineComment 0 '' c'' 2" initialState "exampleContext ''a // c''" "[]"
      "LastNode (Identifier (nodeBase 0 1 1 1) ''a'')"]
  by (auto simp: lineComment_def nodeBase_def initialState_def parseComment_def
        parseCommentLine_def exampleContext_def trim_def isWhiteSpace_def)

section \<open>Opening brace of an if statement\<close>



section \<open>Closing brace of an if statement\<close>



section \<open>Multi-line layout of lists\<close>

text \<open>
  Claim C2 says that a list of one element is laid out on several lines when the element
  starts on another line than the enclosing construct. This holds of named imports only:
  \<^verbatim>\<open>getUseNewLinesForNodes\<close> answers \<^verbatim>\<open>false\<close> for every list of fewer than two elements.
  Below, the only argument of a call stands on line 2 and the call starts on line 1; the
  arguments are laid out with a hanging indent and no newline.
\<close>

theorem single_argument_counterexample:
  "loc_start_line (base (Identifier (nodeBase 5 6 2 2) ''a''))
     \<noteq> loc_start_line (nodeBase 0 8 1 3)
   \<and> \<not> useNewLinesForParametersOrArguments [Identifier (nodeBase 5 6 2 2) ''a'']
   \<and> fst (parseFunc (exampleContext ''f(a)'')
        (CallExpression (nodeBase 0 8 1 3) (Identifier (nodeBase 0 1 1 1) ''f'')
           [Identifier (nodeBase 5 6 2 2) ''a'']) initialState)
     = [Group [Str ''f''], Str ''('', Beh StartHangingIndent, Group [Str ''a''],
        Beh FinishHangingIndent, Str '')'']"
  by (simp add: nodeBase_def useNewLinesForParametersOrArguments_def getUseNewLinesForNodes_def
       initialState_def parseLeadingComments_def parseTrailingComments_def withHangingIndent_def)

lemma getUseNewLinesForNodes_eq:
  "getUseNewLinesForNodes nodes =
     (case nodes of
        x # y # _ \<Rightarrow> loc_start_line (base x) \<noteq> loc_start_line (base y)
      | _ \<Rightarrow> False)"
  by (auto simp: getUseNewLinesForNodes_def split: list.splits)

lemma getUseNewLines_eq:
  "getUseNewLines b namedImports =
     (case namedImports of
        [x] \<Rightarrow> loc_start_line (base x) \<noteq> loc_start_line b
      | x # y # _ \<Rightarrow> loc_start_line (base x) \<noteq> loc_start_line (base y)
      | _ \<Rightarrow> False)"
  by (auto simp: getUseNewLines_def getUseNewLinesForNodes_def split: list.splits)

text \<open>
  Claim C2, amended. The decision depends on source lines only. Named imports are laid out
  on several lines exactly when the only specifier starts on another line than the import
  declaration, or, of two or more specifiers, the first two start on different lines.
  Parameters and arguments, type parameters, and the members of a union type are laid out on
  several lines exactly when there are at least two of them and the first two start on
  different lines; a list of fewer than two is never laid out on several lines. The four
  producers are shown with the decision they take: it chooses between the newline and the
  soft separator, and between the fixed and the hanging indent (a union type always has the
  hanging indent, type parameters always the soft separator).
\<close>

theorem list_layout_decision:
  "(let firstTwoDiffer = (\<lambda>nodes.
          case nodes of
            x # y # _ \<Rightarrow> loc_start_line (base x) \<noteq> loc_start_line (base y)
          | _ \<Rightarrow> False);
        namedMultiLine =
          (case namedImports of
             [x] \<Rightarrow> loc_start_line (base x) \<noteq> loc_start_line b
           | _ \<Rightarrow> firstTwoDiffer namedImports)
    in parseNamedImports ctx b namedImports st =
         (if namedImports = [] then ([], st)
          else case parseSpecifiers ctx namedMultiLine True namedImports st of
            (items, st1) \<Rightarrow>
              ([Str ''{'', Str (if namedMultiLine then newLineKind ctx else '' '')]
               @ (if namedMultiLine then withIndent items else withHangingIndent items)
               @ [Str (if namedMultiLine then newLineKind ctx else '' ''), Str ''}''],
               st1))
     \<and> parseParametersOrArguments ctx nodes st =
         (case parseParameterList ctx (firstTwoDiffer nodes) nodes st of
            (items, st1) \<Rightarrow>
              ([Str ''('']
               @ (if firstTwoDiffer nodes then surroundWithNewLines ctx (withIndent items)
                  else withHangingIndent items)
               @ [Str '')''],
               st1))
     \<and> parseTypeParameterDeclaration ctx nodes st =
         (case parseTypeParameterList ctx nodes st of
            (items, st1) \<Rightarrow>
              (Group ([Str ''<'']
                      @ (if firstTwoDiffer nodes then surroundWithNewLines ctx (withIndent items)
                         else withHangingIndent items)
                      @ [Str ''>'']),
               st1))
     \<and> parseFunc ctx (TSUnionType b' nodes) st =
         (case parseUnionTypes ctx (firstTwoDiffer nodes) True nodes st of
            (items, st1) \<Rightarrow> (withHangingIndent items, st1))
     \<and> getUseNewLines b namedImports = namedMultiLine
     \<and> useNewLinesForParametersOrArguments nodes = firstTwoDiffer nodes
     \<and> getUseNewLinesForNodes nodes = firstTwoDiffer nodes)"
  unfolding Let_def
  apply (intro conjI)
        apply (simp add: getUseNewLines_eq Let_def split: list.splits)
       apply (simp add: useNewLinesForParametersOrArguments_def getUseNewLinesForNodes_eq Let_def)
      apply (simp add: getUseNewLinesForNodes_eq Let_def)
     apply (simp add: getUseNewLinesForNodes_eq Let_def)
    apply (simp add: getUseNewLines_eq split: list.splits)
   apply (simp add: useNewLinesForParametersOrArguments_def getUseNewLinesForNodes_eq)
  apply (simp add: getUseNewLinesForNodes_eq)
  done

theorem list_layout_decision_witness:
  "getUseNewLines (nodeBase 0 20 1 3)
      [ImportSpecifier (nodeBase 9 10 2 2) (Identifier (nodeBase 9 10 2 2) ''a'')
         (Identifier (nodeBase 9 10 2 2) ''a'')]
   \<and> \<not> getUseNewLinesForNodes
        [Identifier (nodeBase 2 3 1 1) ''a'', Identifier (nodeBase 5 6 1 1) ''b'']
   \<and> getUseNewLinesForNodes
        [Identifier (nodeBase 2 3 2 2) ''a'', Identifier (nodeBase 5 6 3 3) ''b'']"
  using list_layout_decision [of "[ImportSpecifier (nodeBase 9 10 2 2)
         (Identifier (nodeBase 9 10 2 2) ''a'') (Identifier (nodeBase 9 10 2 2) ''a'')]"
      "nodeBase 0 20 1 3" "exampleContext []" initialState
      "[Identifier (nodeBase 2 3 1 1) ''a'', Identifier (nodeBase 5 6 1 1) ''b'']"
      "nodeBase 0 1 1 1"]
    list_layout_decision [of "[]" "nodeBase 0 20 1 3" "exampleContext []" initialState
      "[Identifier (nodeBase 2 3 2 2) ''a'', Identifier (nodeBase 5 6 3 3) ''b'']"
      "nodeBase 0 1 1 1"]
  by (simp add: nodeBase_def Let_def)

section \<open>Statement sequences\<close>

text \<open>
  Claim C7 says that two hard newlines stand between two statements when either carries a
  body block. \<^verbatim>\<open>parseStatements\<close> asks \<^verbatim>\<open>hasBody\<close>, which tests that the node has a
  \<^verbatim>\<open>body\<close> property. An if statement has none: its block is its \<^verbatim>\<open>consequent\<close>.
  Below, the statement \<^verbatim>\<open>if (a) { b; }\<close> carries a body block and is followed by the
  statement \<^verbatim>\<open>c;\<close>; the sequence has three items, the two statements and one hard newline
  between them.
\<close>

theorem if_block_separator_counterexample:
  "carriesBodyBlock exampleIfBlock
   \<and> length (fst (parseStatements (exampleContext ''if (a) { b; } c;'')
                    [exampleIfBlock, statementC] None initialState)) = 3
   \<and> isGroup (fst (parseStatements (exampleContext ''if (a) { b; } c;'')
                    [exampleIfBlock, statementC] None initialState) ! 0)
   \<and> fst (parseStatements (exampleContext ''if (a) { b; } c;'')
             [exampleIfBlock, statementC] None initialState) ! 1 = Str [CHR 0x0A]
   \<and> fst (parseStatements (exampleContext ''if (a) { b; } c;'')
             [exampleIfBlock, statementC] None initialState) ! 2
       = Group [Group [Str ''c''], Str '';'']"
  by (simp add: exampleIfBlock_def statementC_def exampleContext_def nodeBase_def
        initialState_def createInfo_def
        parseLeadingComments_def parseTrailingComments_def getHeaderTrailingComments_def
        checkLeadingComments_def consequentRequiresBraces_def
        hasLeadingCommentOnDifferentLine_def parseHeaderTrailingComment_def
        prependToIterableIfHasItems_def withIndent_def Let_def eval_nat_numeral)

text \<open>
  Claim C7, amended. The items of a statement sequence (the body of a program or of a block)
  are the translated statements, each a group, in order; between two neighbours stand two
  hard newlines when either of them has a \<^verbatim>\<open>body\<close> property, and exactly one
  otherwise; after the last statement come the inner comments of the sequence, if it has
  any. Nothing else stands between statements, whatever the distance of their source lines.
  Of the kinds with a producer, blocks and function declarations have a \<^verbatim>\<open>body\<close>
  property; if statements, export declarations and expression statements have none.
\<close>

theorem parseStatements_layout:
  "\<exists>states st1.
      length states = length statements
    \<and> fst (parseStatements ctx statements inner st)
        = layoutStatements (newLineKind ctx) statements
            (map2 (\<lambda>s t. fst (parseNode ctx (Some s) t)) statements states)
          @ (case inner of
               None \<Rightarrow> []
             | Some cs \<Rightarrow> fst (parseCommentCollection ctx cs None st1))
    \<and> list_all isGroup (map2 (\<lambda>s t. fst (parseNode ctx (Some s) t)) statements states)
    \<and> (\<forall>s1 s2. separatorBetween (newLineKind ctx) s1 s2 =
          (if hasBody s1 \<or> hasBody s2 then [Str (newLineKind ctx), Str (newLineKind ctx)]
           else [Str (newLineKind ctx)]))
    \<and> (\<forall>b ss a g i tps ps r fbody t c alt d e.
          hasBody (BlockStatement b ss) \<and> hasBody (FunctionDeclaration b a g i tps ps r fbody)
        \<and> \<not> hasBody (IfStatement b t c alt) \<and> \<not> hasBody (ExportNamedDeclaration b d)
        \<and> \<not> hasBody (ExpressionStatement b e))"
proof -
  from parseStatementsFrom_states [of statements ctx None st] obtain states where
    gs: "length states = length statements"
      "fst (parseStatementsFrom ctx None statements st) =
         layoutStatements (newLineKind ctx) statements
           (map2 (\<lambda>s t. fst (parseNode ctx (Some s) t)) statements states)"
    by auto
  obtain items st1 where p: "parseStatementsFrom ctx None statements st = (items, st1)"
    by (cases "parseStatementsFrom ctx None statements st")
  have ig: "list_all isGroup (map2 (\<lambda>s t. fst (parseNode ctx (Some s) t)) statements states)"
    by (auto simp: list_all_iff parseNode_isGroup simp del: parseNode.simps(2))
  have "fst (parseStatements ctx statements inner st)
        = layoutStatements (newLineKind ctx) statements
            (map2 (\<lambda>s t. fst (parseNode ctx (Some s) t)) statements states)
          @ (case inner of
               None \<Rightarrow> []
             | Some cs \<Rightarrow> fst (parseCommentCollection ctx cs None st1))"
    using gs p
    by (cases inner) (auto split: prod.splits simp del: parseNode.simps(2))
  with gs(1) ig show ?thesis
    by (intro exI [of _ states] exI [of _ st1]) (simp add: separatorBetween_def)
qed

theorem parseStatements_layout_witness:
  "fst (parseStatements (exampleContext ''a; b; {} c;'') exampleStatements None initialState) =
     [Group [Group [Str ''a''], Str '';''], Str [CHR 0x0A],
      Group [Group [Str ''b''], Str '';''], Str [CHR 0x0A], Str [CHR 0x0A],
      Group [Str ''{'', Str [CHR 0x0A], Beh StartIndent, Beh FinishIndent, Str ''}''],
      Str [CHR 0x0A], Str [CHR 0x0A],
      Group [Group [Str ''c''], Str '';'']]"
  using parseStatements_layout [of exampleStatements "exampleContext ''a; b; {} c;''" None initialState]
  by (simp add: exampleStatements_def exampleContext_def nodeBase_def initialState_def
        parseLeadingComments_def parseTrailingComments_def getFirstLineTrailingComments_def
        withIndent_def)

section \<open>The root group and the end of the file\<close>

text \<open>
  Claim C8. \<^verbatim>\<open>parseFile\<close> returns one group of two items: the translated program and a
  condition named \<^verbatim>\<open>endOfFileNewLine\<close> whose true branch is the resolved newline string,
  which has no false branch, and whose predicate is true exactly when the writer's column
  number or its line number is greater than 0. For an empty file (a program without
  statements and comments) the translated program is the empty group and nothing is logged or
  handled; the engine resolves this document to the empty text, whatever its configuration:
  it has written nothing when it reaches the condition, so it stands at line 0 and column 0
  and does not write the newline.
\<close>

theorem parseFile_root_group:
  "\<exists>predicate.
      fst (parseFile removeIndentation resolveNewLine file text opts) =
        Group [fst (parseNode (createContext removeIndentation resolveNewLine text opts)
                      (Some (program file)) initialState),
               Cond (Condition ''endOfFileNewLine'' (ResolveFn predicate)
                       (Some [Str (if opt_newLineKind opts = Auto then resolveNewLine text
                                   else newLineString (opt_newLineKind opts))])
                       None)]
    \<and> (\<forall>conditionContext.
          predicate conditionContext =
            Some (columnNumber (writerInfo conditionContext) > 0
                \<or> lineNumber (writerInfo conditionContext) > 0))
    \<and> (\<forall>b. program file = Program b [] \<and> noComments b \<longrightarrow>
          fst (parseNode (createContext removeIndentation resolveNewLine text opts)
                 (Some (program file)) initialState) = Group []
        \<and> snd (parseFile removeIndentation resolveNewLine file text opts) = initialState
        \<and> (\<forall>cfg. resolveDocument cfg
                     (fst (parseFile removeIndentation resolveNewLine file text opts))
                   = Inr []))"
proof -
  let ?predicate = "\<lambda>conditionContext.
            Some (columnNumber (writerInfo conditionContext) > 0
                \<or> lineNumber (writerInfo conditionContext) > 0)"
  have shape: "fst (parseFile removeIndentation resolveNewLine file text opts) =
        Group [fst (parseNode (createContext removeIndentation resolveNewLine text opts)
                      (Some (program file)) initialState),
               Cond (Condition ''endOfFileNewLine'' (ResolveFn ?predicate)
                       (Some [Str (if opt_newLineKind opts = Auto then resolveNewLine text
                                   else newLineString (opt_newLineKind opts))])
                       None)]"
    by (simp add: parseFile_def endOfFileNewLine_def createContext_def Let_def
          split: prod.splits)
  have empty: "fst (parseNode (createContext removeIndentation resolveNewLine text opts)
                 (Some (program file)) initialState) = Group []
        \<and> snd (parseFile removeIndentation resolveNewLine file text opts) = initialState
        \<and> (\<forall>cfg. resolveDocument cfg
                     (fst (parseFile removeIndentation resolveNewLine file text opts))
                   = Inr [])"
    if "program file = Program b [] \<and> noComments b" for b
  proof -
    have g: "parseNode (createContext removeIndentation resolveNewLine text opts)
                 (Some (program file)) initialState = (Group [], initialState)"
      using that
      by (auto simp: noComments_def parseLeadingComments_def parseTrailingComments_def
            split: prod.splits)
    have d: "fst (parseFile removeIndentation resolveNewLine file text opts) =
        Group [Group [],
               Cond (endOfFileNewLine
                       (createContext removeIndentation resolveNewLine text opts))]"
      using g by (simp add: parseFile_def Let_def del: parseNode.simps)
    show ?thesis
      using g by (simp add: d resolveDocument_empty parseFile_def Let_def del: parseNode.simps)
  qed
  show ?thesis
    using shape empty by (intro exI [of _ ?predicate]) blast
qed

theorem parseFile_root_group_witness:
  "program \<lparr>program = Program (nodeBase 0 0 1 1) []\<rparr> = Program (nodeBase 0 0 1 1) []
   \<and> noComments (nodeBase 0 0 1 1)
   \<and> fst (parseFile (\<lambda>t _ _. t) (\<lambda>_. [CHR 0x0A])
             \<lparr>program = Program (nodeBase 0 0 1 1) []\<rparr> ''''
             (options (exampleContext '''')))
       = Group [Group [], Cond (endOfFileNewLine (exampleContext ''''))]
   \<and> conditionPredicate (Cond (endOfFileNewLine (exampleContext '''')))
        (resolutionContext Expanded initialEngine) = Some False
   \<and> resolveDocument exampleConfig
        (fst (parseFile (\<lambda>t _ _. t) (\<lambda>_. [CHR 0x0A])
                \<lparr>program = Program (nodeBase 0 0 1 1) []\<rparr> ''''
                (options (exampleContext ''''))))
       = Inr ''''"
  using parseFile_root_group [of "\<lambda>t _ _. t" "\<lambda>_. [CHR 0x0A]"
      "\<lparr>program = Program (nodeBase 0 0 1 1) []\<rparr>" "''''" "options (exampleContext '''')"]
  by (auto simp: noComments_def nodeBase_def conditionPredicate_def endOfFileNewLine_def
        resolutionContext_def snapshot_def initialEngine_def parseFile_def createContext_def
        exampleContext_def newLineString_def parseLeadingComments_def
        parseTrailingComments_def initialState_def)

section \<open>Comments are handled once\<close>




section \<open>The formatter's guard and the response codes\<close>

text \<open>
  What holds of the formatter for every instance. While \<^verbatim>\<open>configSet\<close> is false, as it is
  in the formatter that \<^verbatim>\<open>createFromInstance\<close> returns and until \<^verbatim>\<open>setConfig\<close> has
  returned, \<^verbatim>\<open>formatText\<close>, \<^verbatim>\<open>getConfigDiagnostics\<close> and \<^verbatim>\<open>getResolvedConfig\<close>
  throw an error with the message \<^verbatim>\<open>You must call setConfig before calling this function.\<close>
  and leave the instance untouched. Once it is true and the file path and the file text have
  been sent, \<^verbatim>\<open>formatText\<close> returns the file text it was given when \<^verbatim>\<open>format\<close>
  answers 0, returns what \<^verbatim>\<open>receiveString\<close> returns for \<^verbatim>\<open>get_formatted_text\<close> when
  it answers 1, and throws an error whose message is what \<^verbatim>\<open>receiveString\<close> returns for
  \<^verbatim>\<open>get_error_text\<close> when it answers 2. With a buffer size above 0, \<^verbatim>\<open>formatText\<close>
  always returns or throws.
\<close>

lemma formatText_cases:
  "(\<not> configSet f \<longrightarrow>
      formatText lib x f filePath text
        = Some (Threw (Error ''You must call setConfig before calling this function.''), f)
    \<and> getConfigDiagnostics lib x f
        = Some (Threw (Error ''You must call setConfig before calling this function.''), f)
    \<and> getResolvedConfig lib x f
        = Some (Threw (Error ''You must call setConfig before calling this function.''), f))
   \<and> (configSet f
      \<and> sendString lib x (bufferSize f) filePath (instance_state f) = (Returned (), w1)
      \<and> sendString lib x (bufferSize f) text (set_file_path x w1) = (Returned (), w2)
      \<and> format x w2 = (responseCode, w3) \<longrightarrow>
        (responseCode = 0 \<longrightarrow>
           formatText lib x f filePath text
             = Some (Returned (Some text), f\<lparr>instance_state := w3\<rparr>))
      \<and> (responseCode = 1
           \<and> receiveString lib x (bufferSize f) (fst (get_formatted_text x w3))
                (snd (get_formatted_text x w3)) = Some (Returned s, w5) \<longrightarrow>
           formatText lib x f filePath text
             = Some (Returned (Some s), f\<lparr>instance_state := w5\<rparr>))
      \<and> (responseCode = 2
           \<and> receiveString lib x (bufferSize f) (fst (get_error_text x w3))
                (snd (get_error_text x w3)) = Some (Returned s, w5) \<longrightarrow>
           formatText lib x f filePath text
             = Some (Threw (Error s), f\<lparr>instance_state := w5\<rparr>)))
   \<and> (0 < bufferSize f \<longrightarrow> formatText lib x f filePath text \<noteq> None)
   \<and> (createFromInstance lib x w = Returned f0 \<longrightarrow> \<not> configSet f0)
   \<and> (fst (setConfig lib x f globalConfig pluginConfig) = Returned () \<longrightarrow>
        configSet (snd (setConfig lib x f globalConfig pluginConfig)))"
proof (intro conjI impI)
  assume "0 < bufferSize f"
  then show "formatText lib x f filePath text \<noteq> None"
    using receiveString_returns [of "bufferSize f" lib x]
    by (auto simp: formatText_def split: outcome.splits prod.splits option.splits)
       (metis option.distinct(1))+
qed (auto simp: formatText_def getConfigDiagnostics_def getResolvedConfig_def
       throwIfConfigNotSet_def configNotSetMessage_def createFromInstance_def setConfig_def
     split: prod.splits outcome.splits if_splits)


text \<open>
  Claim C9 says that \<^verbatim>\<open>formatText\<close> returns the formatted text fetched from the instance
  when \<^verbatim>\<open>format\<close> answers 1. \<^verbatim>\<open>receiveString\<close> fetches the text in pieces of the
  buffer size, and copies every piece to the start of its result (\<^verbatim>\<open>buffer.set(wasmBuffer)\<close>
  has no offset), so a text longer than the buffer comes back with its first piece overwritten
  by the later ones and zeros at its end. Below, the configuration has been set, the buffer
  holds two bytes, \<^verbatim>\<open>format\<close> answers 1 and the instance holds the formatted text
  \<^verbatim>\<open>aba\<close>: \<^verbatim>\<open>formatText\<close> returns \<^verbatim>\<open>ab\<close> followed by the character 0.
\<close>

theorem formatText_long_output:
  "createFromInstance toyLibrary toyExports (smallInstance [0, 0] [])
     = Returned (smallFormatter\<lparr>configSet := False\<rparr>)
   \<and> configSet smallFormatter
   \<and> format toyExports (smallInstance [1, 2] [1, 2]) = (1, smallInstance [1, 2] [1, 2])
   \<and> decode toyLibrary (toy_output (smallInstance [1, 2] [1, 2])) = ''aba''
   \<and> formatText toyLibrary toyExports smallFormatter ''a'' ''ab''
       = Some (Returned (Some [CHR ''a'', CHR ''b'', CHR 0x00]),
               smallFormatter\<lparr>instance_state := smallInstance [1, 2] [1, 2]\<rparr>)"
  by (simp add: smallFormatter_def smallInstance_def toyLibrary_def toyExports_def formatText_def
        sendString_def receiveString_def receiveLoop.simps throwIfConfigNotSet_def
        viewFits_def writeAt_def Let_def createFromInstance_def)


end
